theory Spec2Isabelle
  imports Complex_Main
begin

section \<open>JavaScript built-ins used by WmtsLayer\<close>

text \<open>
  \<^verbatim>\<open>String.prototype.indexOf(pattern)\<close>: the position of the first occurrence of the
  pattern, or -1.
\<close>

fun indexOfFrom :: "string \<Rightarrow> string \<Rightarrow> nat \<Rightarrow> int" where
  "indexOfFrom pat [] i = (if pat = [] then int i else - 1)"
| "indexOfFrom pat (c # cs) i =
     (if take (length pat) (c # cs) = pat then int i else indexOfFrom pat cs (Suc i))"

definition indexOf :: "string \<Rightarrow> string \<Rightarrow> int" where
  "indexOf s pat = indexOfFrom pat s 0"

text \<open>
  \<^verbatim>\<open>Array.prototype.indexOf(element)\<close>: the position of the first element equal to
  the argument, or -1.
\<close>

fun arrayIndexOfFrom :: "'a list \<Rightarrow> 'a \<Rightarrow> nat \<Rightarrow> int" where
  "arrayIndexOfFrom [] a i = - 1"
| "arrayIndexOfFrom (x # xs) a i = (if x = a then int i else arrayIndexOfFrom xs a (Suc i))"

definition arrayIndexOf :: "'a list \<Rightarrow> 'a \<Rightarrow> int" where
  "arrayIndexOf xs a = arrayIndexOfFrom xs a 0"

text \<open>\<^verbatim>\<open>array.splice(index, 1)\<close> for an index that is not negative.\<close>

definition splice1 :: "'a list \<Rightarrow> nat \<Rightarrow> 'a list" where
  "splice1 xs i = take i xs @ drop (Suc i) xs"

text \<open>\<^verbatim>\<open>array[i]\<close>: \<^verbatim>\<open>undefined\<close> outside the array.\<close>

definition arrayGet :: "'a list \<Rightarrow> int \<Rightarrow> 'a option" where
  "arrayGet xs i = (if 0 \<le> i \<and> i < int (length xs) then Some (xs ! nat i) else None)"

text \<open>
  Truthiness of an optional string: \<^verbatim>\<open>undefined\<close> and the empty string are falsy.
\<close>

definition truthy :: "string option \<Rightarrow> bool" where
  "truthy v = (case v of None \<Rightarrow> False | Some s \<Rightarrow> s \<noteq> [])"

text \<open>
  \<^verbatim>\<open>String.prototype.toLowerCase\<close> on the ASCII letters. The source only compares the
  result with \<^verbatim>\<open>"time"\<close>.
\<close>

definition lowerChar :: "char \<Rightarrow> char" where
  "lowerChar c =
     (let n = of_char c :: nat in if 65 \<le> n \<and> n \<le> 90 then char_of (n + 32) else c)"

definition toLowerCase :: "string \<Rightarrow> string" where
  "toLowerCase s = map lowerChar s"

text \<open>
  \<^verbatim>\<open>a > b\<close> where \<^verbatim>\<open>b\<close> may be \<^verbatim>\<open>undefined\<close>: the comparison converts
  \<^verbatim>\<open>undefined\<close> to NaN and is false.
\<close>

definition jsGreater :: "nat \<Rightarrow> nat option \<Rightarrow> bool" where
  "jsGreater a b = (case b of None \<Rightarrow> False | Some n \<Rightarrow> a > n)"

datatype error = ArgumentError string | TypeError

section \<open>The tile matrix model\<close>

text \<open>
  Modelled from the spec: a sector (geom/Sector is not part of this file) is a geographic
  bounding box of minimum and maximum latitude and longitude; the constructor takes them
  in the order minLatitude, maxLatitude, minLongitude, maxLongitude.
\<close>

record sector_rec =
  minLatitude :: real
  maxLatitude :: real
  minLongitude :: real
  maxLongitude :: real

definition Sector :: "real \<Rightarrow> real \<Rightarrow> real \<Rightarrow> real \<Rightarrow> sector_rec" where
  "Sector minLat maxLat minLon maxLon =
     \<lparr>minLatitude = minLat, maxLatitude = maxLat, minLongitude = minLon, maxLongitude = maxLon\<rparr>"

text \<open>
  A TileMatrix of the capabilities document. \<^verbatim>\<open>topLeftCorner\<close> is a two-element array;
  its elements 0 and 1 are the components of the pair.
\<close>

record tile_matrix =
  levelNumber :: int
  matrixWidth :: int
  matrixHeight :: int
  tileWidth :: int
  tileHeight :: int
  topLeftCorner :: "real \<times> real"
  scaleDenominator :: real
  tm_identifier :: string

record bounding_box =
  lowerCorner :: "real \<times> real"
  upperCorner :: "real \<times> real"
  bbox_crs :: string

text \<open>
  A TileMatrixSet: both the sets of the capabilities document and the objects that
  \<^verbatim>\<open>convertTileMatrixSets\<close> builds have these properties.
\<close>

record tile_matrix_set =
  tms_identifier :: string
  supportedCRS :: string
  wellKnownScaleSet :: "string option"
  tms_boundingBox :: "bounding_box option"
  tms_tileMatrix :: "tile_matrix list"

section \<open>Coordinate reference systems\<close>

definition isEpsg4326Crs :: "string \<Rightarrow> bool" where
  "isEpsg4326Crs crs = (indexOf crs ''EPSG'' \<ge> 0 \<and> indexOf crs ''4326'' \<ge> 0)"

definition isEpsg3857Crs :: "string \<Rightarrow> bool" where
  "isEpsg3857Crs crs =
     (indexOf crs ''EPSG'' \<ge> 0 \<and> (indexOf crs ''3857'' \<ge> 0 \<or> indexOf crs ''900913'' \<ge> 0))"

definition isOGCCrs84 :: "string \<Rightarrow> bool" where
  "isOGCCrs84 crs = (indexOf crs ''OGC'' \<ge> 0 \<and> indexOf crs ''CRS84'' \<ge> 0)"

section \<open>Capabilities negotiation\<close>

text \<open>
  The checks of the inner loop of \<^verbatim>\<open>convertTileMatrixSets\<close> that end an iteration with
  \<^verbatim>\<open>continue\<close>, in the order of the source: aspect ratio by CRS, quad division,
  image squareness, image size.
\<close>

definition aspectRatioOk :: "string \<Rightarrow> tile_matrix \<Rightarrow> bool" where
  "aspectRatioOk crs tm =
     (if isEpsg3857Crs crs then matrixHeight tm = matrixWidth tm
      else if isEpsg4326Crs crs \<or> isOGCCrs84 crs then matrixHeight tm * 2 = matrixWidth tm
      else False)"

definition passesChecks :: "string \<Rightarrow> tile_matrix \<Rightarrow> bool" where
  "passesChecks crs tm =
     (aspectRatioOk crs tm
      \<and> \<not> (matrixHeight tm mod 2 \<noteq> 0 \<or> matrixWidth tm mod 2 \<noteq> 0)
      \<and> \<not> (tileHeight tm \<noteq> tileWidth tm)
      \<and> \<not> (tileHeight tm \<noteq> 256))"

text \<open>
  The iterations \<^verbatim>\<open>j > 0\<close> of the inner loop. \<open>previousHeight\<close> is the loop's variable
  of that name; the result is what the iterations push onto \<^verbatim>\<open>compatibleTileMatrices\<close>.
\<close>

fun laterLevels :: "string \<Rightarrow> int \<Rightarrow> tile_matrix list \<Rightarrow> tile_matrix list" where
  "laterLevels crs previousHeight [] = []"
| "laterLevels crs previousHeight (tm # rest) =
     (if \<not> passesChecks crs tm then laterLevels crs previousHeight rest
      else if previousHeight = 0 \<or> 2 * previousHeight = matrixHeight tm
        then tm # laterLevels crs (matrixHeight tm) rest
        else laterLevels crs previousHeight rest)"

text \<open>
  The whole inner loop: iteration \<^verbatim>\<open>j === 0\<close> pushes the first tile matrix and leaves
  \<open>previousHeight\<close> at its initial 0.
\<close>

definition compatibleTileMatrices :: "string \<Rightarrow> tile_matrix list \<Rightarrow> tile_matrix list" where
  "compatibleTileMatrices crs tms =
     (case tms of [] \<Rightarrow> [] | tm # rest \<Rightarrow> tm # laterLevels crs 0 rest)"

definition supportedCrs :: "string \<Rightarrow> bool" where
  "supportedCrs crs = (isEpsg4326Crs crs \<or> isEpsg3857Crs crs \<or> isOGCCrs84 crs)"

text \<open>One iteration of the outer loop: the converted set, if the iteration pushes one.\<close>

definition convertTileMatrixSet :: "tile_matrix_set \<Rightarrow> tile_matrix_set option" where
  "convertTileMatrixSet tileMatrixSet =
     (let crs = supportedCRS tileMatrixSet in
      if \<not> supportedCrs crs then None
      else
        let compatible = compatibleTileMatrices crs (tms_tileMatrix tileMatrixSet) in
        if length compatible > 1 then
          Some \<lparr>tms_identifier = tms_identifier tileMatrixSet,
                supportedCRS = supportedCRS tileMatrixSet,
                wellKnownScaleSet =
                  (if truthy (wellKnownScaleSet tileMatrixSet)
                   then wellKnownScaleSet tileMatrixSet else None),
                tms_boundingBox = tms_boundingBox tileMatrixSet,
                tms_tileMatrix = compatible\<rparr>
        else None)"

text \<open>
  The capabilities of one layer, as far as WmtsLayer reads them.
  \<open>supportedTileMatrixSets\<close> is what \<^verbatim>\<open>layerCaps.getLayerSupportedTileMatrixSets()\<close>
  returns and \<open>getTileKvpAddress\<close> what
  \<^verbatim>\<open>layerCaps.capabilities.getGetTileKvpAddress()\<close> returns.
\<close>

record style_rec =
  style_identifier :: string
  isDefault :: bool

record dimension_rec =
  dim_identifier :: string
  dim_default :: "string option"

record resource_url =
  ru_format :: string
  template :: string

record layer_caps =
  lc_identifier :: string
  style :: "style_rec list"
  dimension :: "dimension_rec list option"
  format :: "string list"
  lc_resourceUrl :: "resource_url list option"
  getTileKvpAddress :: "string option"
  supportedTileMatrixSets :: "tile_matrix_set list"
  lc_boundingBox :: "bounding_box list option"
  lc_wgs84BoundingBox :: "bounding_box option"
  titles :: "string list"

definition convertTileMatrixSets :: "layer_caps option \<Rightarrow> error + tile_matrix_set list" where
  "convertTileMatrixSets layerCaps =
     (case layerCaps of
        None \<Rightarrow> Inl (ArgumentError ''No layer configuration specified.'')
      | Some caps \<Rightarrow> Inr (List.map_filter convertTileMatrixSet (supportedTileMatrixSets caps)))"

text \<open>
  The selection loop of \<^verbatim>\<open>createConfigurationFromLayer\<close>. The state is the pair of
  \<^verbatim>\<open>highestResTileMatrixSet\<close> and the function-scoped \<^verbatim>\<open>tms\<close>. The comparison reads
  \<^verbatim>\<open>highestResTileMatrixSet.length\<close>; a converted set is an object with the properties
  identifier, supportedCRS, wellKnownScaleSet, boundingBox and tileMatrix, so that
  property is \<^verbatim>\<open>undefined\<close>.
\<close>

definition lengthProperty :: "tile_matrix_set \<Rightarrow> nat option" where
  "lengthProperty tms = None"

fun selectionLoop ::
  "tile_matrix_set list \<Rightarrow> tile_matrix_set option \<times> tile_matrix_set option
     \<Rightarrow> tile_matrix_set option \<times> tile_matrix_set option" where
  "selectionLoop [] st = st"
| "selectionLoop (tms # rest) (highestResTileMatrixSet, last_tms) =
     selectionLoop rest
       (case highestResTileMatrixSet of
          None \<Rightarrow> (Some tms, Some tms)
        | Some h \<Rightarrow>
            if jsGreater (length (tms_tileMatrix tms)) (lengthProperty h)
            then (Some tms, Some tms) else (Some h, Some tms))"

record config =
  cfg_layerIdentifier :: "string option"
  cfg_styleIdentifier :: "string option"
  cfg_timeString :: "string option"
  cfg_imageFormat :: "string option"
  cfg_resourceUrl :: "string option"
  cfg_serviceUrl :: "string option"
  cfg_tileMatrixSet :: "tile_matrix_set option"
  cfg_boundingBox :: "bounding_box list option"
  cfg_wgs84BoundingBox :: "bounding_box option"
  cfg_title :: string

text \<open>The first default style's identifier.\<close>

fun defaultStyle :: "style_rec list \<Rightarrow> string option" where
  "defaultStyle [] = None"
| "defaultStyle (s # rest) = (if isDefault s then Some (style_identifier s) else defaultStyle rest)"

text \<open>The default of the first dimension named time.\<close>

fun defaultTime :: "dimension_rec list \<Rightarrow> string option" where
  "defaultTime [] = None"
| "defaultTime (d # rest) =
     (if toLowerCase (dim_identifier d) = ''time'' then dim_default d else defaultTime rest)"

definition chooseImageFormat :: "string list \<Rightarrow> string option" where
  "chooseImageFormat formats =
     (if arrayIndexOf formats ''image/png'' \<ge> 0 then Some ''image/png''
      else if arrayIndexOf formats ''image/jpeg'' \<ge> 0 then Some ''image/jpeg''
      else if arrayIndexOf formats ''image/tiff'' \<ge> 0 then Some ''image/tiff''
      else if arrayIndexOf formats ''image/gif'' \<ge> 0 then Some ''image/gif''
      else arrayGet formats 0)"

text \<open>The template of the first resource URL of the chosen format.\<close>

fun templateFor :: "string \<Rightarrow> resource_url list \<Rightarrow> string option" where
  "templateFor fmt [] = None"
| "templateFor fmt (r # rest) = (if fmt = ru_format r then Some (template r) else templateFor fmt rest)"

text \<open>
  \<^verbatim>\<open>createConfigurationFromLayer\<close>. \<open>fixGetMapString\<close> is
  \<^verbatim>\<open>WmsUrlBuilder.fixGetMapString\<close>, which is not part of this file.
\<close>

definition createConfigurationFromLayer ::
  "(string \<Rightarrow> string) \<Rightarrow> layer_caps option \<Rightarrow> error + config" where
  "createConfigurationFromLayer fixGetMapString layerCaps =
     (case layerCaps of
        None \<Rightarrow> Inl (ArgumentError ''No layer configuration specified.'')
      | Some caps \<Rightarrow>
          let styleIdentifier = defaultStyle (style caps);
              timeString = (case dimension caps of None \<Rightarrow> None | Some ds \<Rightarrow> defaultTime ds);
              imageFormat = chooseImageFormat (format caps)
          in if \<not> truthy imageFormat
             then Inl (ArgumentError ''Layer does not provide a supported image format.'')
             else
               let restful = (case lc_resourceUrl caps of None \<Rightarrow> False | Some rs \<Rightarrow> length rs > 0);
                   resourceUrl =
                     (if restful then templateFor (the imageFormat) (the (lc_resourceUrl caps))
                      else None);
                   serviceUrl =
                     (if restful then None
                      else if truthy (getTileKvpAddress caps)
                        then Some (fixGetMapString (the (getTileKvpAddress caps)))
                        else getTileKvpAddress caps)
               in if \<not> truthy resourceUrl \<and> \<not> truthy serviceUrl
                  then Inl (ArgumentError
                    ''No resource URL or KVP GetTile service URL specified in WMTS capabilities.'')
                  else
                    (case convertTileMatrixSets (Some caps) of
                       Inl e \<Rightarrow> Inl e
                     | Inr compatibleTileMatrixSets \<Rightarrow>
                         if length compatibleTileMatrixSets > 0 then
                           Inr \<lparr>cfg_layerIdentifier = Some (lc_identifier caps),
                                cfg_styleIdentifier = styleIdentifier,
                                cfg_timeString = timeString,
                                cfg_imageFormat = imageFormat,
                                cfg_resourceUrl = resourceUrl,
                                cfg_serviceUrl = serviceUrl,
                                cfg_tileMatrixSet =
                                  snd (selectionLoop compatibleTileMatrixSets (None, None)),
                                cfg_boundingBox = lc_boundingBox caps,
                                cfg_wgs84BoundingBox = lc_wgs84BoundingBox caps,
                                cfg_title =
                                  (if length (titles caps) > 0 then hd (titles caps)
                                   else lc_identifier caps)\<rparr>
                         else Inl (ArgumentError ''No supported Tile Matrix Set could be found.'')))"

section \<open>Collaborators\<close>

text \<open>
  Modelled from the spec: \<^verbatim>\<open>Sector.deltaLatitude\<close> and \<^verbatim>\<open>Sector.deltaLongitude\<close>
  (geom/Sector is not part of this file): the height and the width of the bounding box.
\<close>

definition deltaLatitude :: "sector_rec \<Rightarrow> real" where
  "deltaLatitude s = maxLatitude s - minLatitude s"

definition deltaLongitude :: "sector_rec \<Rightarrow> real" where
  "deltaLongitude s = maxLongitude s - minLongitude s"

text \<open>
  Modelled from the spec: \<^verbatim>\<open>WWMath.clamp(value, min, max)\<close> (util/WWMath is not part of
  this file): the value, limited to the interval from min to max.
\<close>

definition clamp :: "real \<Rightarrow> real \<Rightarrow> real \<Rightarrow> real" where
  "clamp v lo hi = (if v < lo then lo else if v > hi then hi else v)"

text \<open>A decoded image: its dimensions and its RGBA bytes, row by row from the top.\<close>

record image_rec =
  width :: nat
  height :: nat
  pixels :: "nat list"

text \<open>
  Modelled from the spec: a texture (render/Texture is not part of this file) holds the
  decoded image, its creation time and its byte size.
\<close>

record texture =
  texImage :: image_rec
  creationTime :: nat
  tex_size :: nat

text \<open>A tile of the quadtree (layer/WmtsLayerTile), as this file reads it.\<close>

record wmts_tile =
  sector :: sector_rec
  tileMatrix :: tile_matrix
  row :: int
  column :: int
  imagePath :: string

text \<open>
  What this file calls and does not define. Each is a parameter of the model, so every
  theorem holds whatever these functions compute.
  \<^item> \<open>mustSubdivide\<close>: \<^verbatim>\<open>tile.mustSubdivide(dc, s)\<close>, after \<^verbatim>\<open>tile.update(dc)\<close>;
  \<^item> \<open>intersectsFrustum\<close>:
    \<^verbatim>\<open>tile.extent.intersectsFrustum(dc.navigatorState.frustumInModelCoordinates)\<close>;
  \<^item> \<open>projectionLimits\<close>: \<^verbatim>\<open>dc.globe.projectionLimits\<close>;
  \<^item> \<open>overlaps\<close>, \<open>intersects\<close>: the methods of Sector;
  \<^item> \<open>subdivideToCache\<close>: \<^verbatim>\<open>tile.subdivideToCache(nextLevel, this, this.tileCache)\<close>,
    given the next level (\<^verbatim>\<open>undefined\<close> past the last one); \<open>None\<close> when the call
    throws, and an element \<open>None\<close> for a child that is \<^verbatim>\<open>undefined\<close>;
  \<^item> \<open>suffixForMimeType\<close>: \<^verbatim>\<open>WWUtil.suffixForMimeType\<close>;
  \<^item> \<open>jsReplace\<close>: \<^verbatim>\<open>String.prototype.replace\<close> with a string pattern;
  \<^item> \<open>epsg3857ToEpsg4326\<close>: the function of WWMath, returning latitude and longitude;
  \<^item> \<open>sourceRow\<close>: the value of \<^verbatim>\<open>srcRow\<close> in the loop of \<^verbatim>\<open>createTexture3857\<close>, for
    the tile's sector, \<^verbatim>\<open>image.height\<close> and the destination row y. The source computes
    it as \<^verbatim>\<open>Math.floor(dy * (image.height - 1))\<close>, where dy is the clamped quotient of
    differences of \<^verbatim>\<open>WWMath.gudermannianInverse\<close>, all in IEEE double arithmetic. The
    roundings of that arithmetic are not modelled here (over the real numbers the floor
    can be another row), so the row is a parameter of which nothing is assumed; it is
    \<open>None\<close> when the value is NaN;
  \<^item> \<open>textureSize\<close>, \<open>clock\<close>: the byte size and the creation time that the Texture
    constructor records.
\<close>

record collaborators =
  mustSubdivide :: "wmts_tile \<Rightarrow> real \<Rightarrow> bool"
  intersectsFrustum :: "wmts_tile \<Rightarrow> bool"
  projectionLimits :: "sector_rec option"
  overlaps :: "sector_rec \<Rightarrow> sector_rec \<Rightarrow> bool"
  intersects :: "sector_rec \<Rightarrow> sector_rec \<Rightarrow> bool"
  subdivideToCache :: "tile_matrix option \<Rightarrow> wmts_tile \<Rightarrow> wmts_tile option list option"
  suffixForMimeType :: "string \<Rightarrow> string"
  jsReplace :: "string \<Rightarrow> string \<Rightarrow> string \<Rightarrow> string"
  sourceRow :: "sector_rec \<Rightarrow> nat \<Rightarrow> nat \<Rightarrow> int option"
  epsg3857ToEpsg4326 :: "real \<Rightarrow> real \<Rightarrow> real \<times> real"
  textureSize :: "image_rec \<Rightarrow> nat"
  clock :: nat

text \<open>
  Modelled from the spec: the Texture constructor, for the image or canvas it is given.
\<close>

definition Texture :: "collaborators \<Rightarrow> image_rec \<Rightarrow> texture" where
  "Texture X img = \<lparr>texImage = img, creationTime = clock X, tex_size = textureSize X img\<rparr>"

section \<open>The layer\<close>

text \<open>The fields of a WmtsLayer that are set by the constructor and not written again.\<close>

record wmts_layer =
  layerIdentifier :: "string option"
  styleIdentifier :: "string option"
  timeString :: "string option"
  imageFormat :: string
  resourceUrl :: "string option"
  serviceUrl :: "string option"
  tileMatrixSet :: tile_matrix_set
  layerSector :: "sector_rec option"
  cachePath :: string
  detailControl :: real
  expiration :: "nat option"

text \<open>
  What changes while the layer runs: the layer's own mutable fields, the GPU resource
  cache of the draw context (a map from keys to a texture and its byte size), the absent
  resource list (the set of marked paths), the images whose \<^verbatim>\<open>src\<close> has been set (path
  and URL), and the number of redraw events dispatched on the canvas.
\<close>

record wmts_state =
  currentTiles :: "wmts_tile list"
  currentTilesInvalid :: bool
  topLevelTiles :: "wmts_tile option list option"
  currentAncestorTile :: "wmts_tile option"
  currentRetrievals :: "string list"
  absentResourceList :: "string set"
  gpuResourceCache :: "string \<rightharpoonup> texture \<times> nat"
  imageRequests :: "(string \<times> string) list"
  redrawEvents :: nat

text \<open>
  Modelled from the spec: the GPU resource cache of the draw context, which is not part of
  this file, with \<^verbatim>\<open>containsResource(key)\<close>, \<^verbatim>\<open>resourceForKey(key)\<close> and
  \<^verbatim>\<open>putResource(key, handle, byteSize)\<close>. Eviction is not modelled.
\<close>

definition containsResource :: "wmts_state \<Rightarrow> string \<Rightarrow> bool" where
  "containsResource s k = (gpuResourceCache s k \<noteq> None)"

definition resourceForKey :: "wmts_state \<Rightarrow> string \<Rightarrow> texture option" where
  "resourceForKey s k = map_option fst (gpuResourceCache s k)"

definition putResource :: "string \<Rightarrow> texture \<Rightarrow> nat \<Rightarrow> wmts_state \<Rightarrow> wmts_state" where
  "putResource k t n s = s\<lparr>gpuResourceCache := (gpuResourceCache s)(k \<mapsto> (t, n))\<rparr>"

text \<open>
  Modelled from the spec: the absent resource list (util/AbsentResourceList is not part of
  this file) with \<^verbatim>\<open>isResourceAbsent\<close>, \<^verbatim>\<open>markResourceAbsent\<close> and
  \<^verbatim>\<open>unmarkResourceAbsent\<close>: a resource is absent after it was marked and until it is
  unmarked. The time window after which a mark lapses is not modelled.
\<close>

definition isResourceAbsent :: "wmts_state \<Rightarrow> string \<Rightarrow> bool" where
  "isResourceAbsent s k = (k \<in> absentResourceList s)"

definition markResourceAbsent :: "string \<Rightarrow> wmts_state \<Rightarrow> wmts_state" where
  "markResourceAbsent k s = s\<lparr>absentResourceList := insert k (absentResourceList s)\<rparr>"

definition unmarkResourceAbsent :: "string \<Rightarrow> wmts_state \<Rightarrow> wmts_state" where
  "unmarkResourceAbsent k s = s\<lparr>absentResourceList := absentResourceList s - {k}\<rparr>"

text \<open>String concatenation converts \<^verbatim>\<open>undefined\<close> to the text undefined.\<close>

definition strOf :: "string option \<Rightarrow> string" where
  "strOf v = (case v of None \<Rightarrow> ''undefined'' | Some s \<Rightarrow> s)"

text \<open>The decimal text of an integer, as string concatenation converts a number.\<close>

fun decimalNat :: "nat \<Rightarrow> string" where
  "decimalNat n =
     (if n < 10 then [char_of (48 + n)]
      else decimalNat (n div 10) @ [char_of (48 + n mod 10)])"

definition numberToString :: "int \<Rightarrow> string" where
  "numberToString i = (if i < 0 then CHR ''-'' # decimalNat (nat (- i)) else decimalNat (nat i))"

definition sectorOfBox :: "bounding_box \<Rightarrow> sector_rec" where
  "sectorOfBox b =
     Sector (snd (lowerCorner b)) (snd (upperCorner b)) (fst (lowerCorner b)) (fst (upperCorner b))"

text \<open>
  The state of a layer that the constructor has just returned, with an empty GPU
  resource cache.
\<close>

definition initialState :: wmts_state where
  "initialState =
     \<lparr>currentTiles = [], currentTilesInvalid = True, topLevelTiles = None,
      currentAncestorTile = None, currentRetrievals = [], absentResourceList = {},
      gpuResourceCache = Map.empty, imageRequests = [], redrawEvents = 0\<rparr>"

text \<open>
  The constructor. The field \<^verbatim>\<open>expiration\<close> is not set by it; \<^verbatim>\<open>sector\<close> stays
  \<^verbatim>\<open>undefined\<close> on the path that neither assigns it nor throws.
\<close>

definition WmtsLayer :: "config option \<Rightarrow> error + wmts_layer" where
  "WmtsLayer cfg =
     (case cfg of
        None \<Rightarrow> Inl (ArgumentError ''No layer configuration specified.'')
      | Some c \<Rightarrow>
          if \<not> truthy (cfg_imageFormat c)
          then Inl (ArgumentError ''Layer does not provide a supported image format.'')
          else if \<not> truthy (cfg_resourceUrl c) \<and> \<not> truthy (cfg_serviceUrl c)
          then Inl (ArgumentError
            ''No resource URL or KVP GetTile service URL specified in WMTS capabilities.'')
          else
            (case cfg_tileMatrixSet c of
               None \<Rightarrow> Inl (ArgumentError ''No supported Tile Matrix Set could be found.'')
             | Some tms \<Rightarrow>
                 let build = (\<lambda>sec.
                       Inr \<lparr>layerIdentifier = cfg_layerIdentifier c,
                            styleIdentifier = cfg_styleIdentifier c,
                            timeString = cfg_timeString c,
                            imageFormat = the (cfg_imageFormat c),
                            resourceUrl = cfg_resourceUrl c,
                            serviceUrl = cfg_serviceUrl c,
                            tileMatrixSet = tms,
                            layerSector = sec,
                            cachePath =
                              (if truthy (cfg_resourceUrl c) then the (cfg_resourceUrl c)
                               else strOf (cfg_serviceUrl c))
                              @ strOf (cfg_layerIdentifier c) @ strOf (cfg_styleIdentifier c)
                              @ tms_identifier tms
                              @ (if truthy (cfg_timeString c) then the (cfg_timeString c) else []),
                            detailControl = 1.75,
                            expiration = None\<rparr>)
                 in
                 if cfg_wgs84BoundingBox c = None \<and> cfg_boundingBox c = None then
                   (case tms_boundingBox tms of
                      Some b \<Rightarrow> build (Some (sectorOfBox b))
                    | None \<Rightarrow> Inl (ArgumentError
                        ''No bounding box was specified in the layer or tile matrix set capabilities.''))
                 else
                   (case cfg_wgs84BoundingBox c of
                      Some b \<Rightarrow> build (Some (sectorOfBox b))
                    | None \<Rightarrow>
                        (case tms_boundingBox tms of
                           Some b \<Rightarrow>
                             if isEpsg4326Crs (bbox_crs b) then build (Some (sectorOfBox b))
                             else if isEpsg4326Crs (supportedCRS tms)
                             then Inl (ArgumentError
                               ''No EPSG:4326 bounding box was specified in the layer or tile matrix set capabilities.'')
                             else build None
                         | None \<Rightarrow>
                             if isEpsg4326Crs (supportedCRS tms)
                             then Inl (ArgumentError
                               ''No EPSG:4326 bounding box was specified in the layer or tile matrix set capabilities.'')
                             else build None))))"

section \<open>Tile addressing\<close>

definition makeTile ::
  "collaborators \<Rightarrow> wmts_layer \<Rightarrow> sector_rec \<Rightarrow> tile_matrix \<Rightarrow> int \<Rightarrow> int \<Rightarrow> wmts_tile" where
  "makeTile X L sec tm r c =
     \<lparr>sector = sec, tileMatrix = tm, row = r, column = c,
      imagePath = cachePath L @ ''-layer/'' @ tm_identifier tm @ ''/'' @ numberToString r
        @ ''/'' @ numberToString c @ ''.'' @ suffixForMimeType X (imageFormat L)\<rparr>"

text \<open>
  \<^verbatim>\<open>createTile4326\<close> and \<^verbatim>\<open>createTileCrs84\<close> call methods of \<^verbatim>\<open>this.sector\<close>: a
  TypeError when the constructor left it \<^verbatim>\<open>undefined\<close>.
\<close>

definition createTile4326 ::
  "collaborators \<Rightarrow> wmts_layer \<Rightarrow> tile_matrix \<Rightarrow> int \<Rightarrow> int \<Rightarrow> error + wmts_tile" where
  "createTile4326 X L tm r c =
     (case layerSector L of
        None \<Rightarrow> Inl TypeError
      | Some sec \<Rightarrow>
          let tileDeltaLat = deltaLatitude sec / of_int (matrixHeight tm);
              tileDeltaLon = deltaLongitude sec / of_int (matrixWidth tm);
              maxLat = fst (topLeftCorner tm) - of_int r * tileDeltaLat;
              minLat = maxLat - tileDeltaLat;
              minLon = snd (topLeftCorner tm) + tileDeltaLon * of_int c;
              maxLon = minLon + tileDeltaLon
          in Inr (makeTile X L (Sector minLat maxLat minLon maxLon) tm r c))"

definition createTileCrs84 ::
  "collaborators \<Rightarrow> wmts_layer \<Rightarrow> tile_matrix \<Rightarrow> int \<Rightarrow> int \<Rightarrow> error + wmts_tile" where
  "createTileCrs84 X L tm r c =
     (case layerSector L of
        None \<Rightarrow> Inl TypeError
      | Some sec \<Rightarrow>
          let tileDeltaLat = deltaLatitude sec / of_int (matrixHeight tm);
              tileDeltaLon = deltaLongitude sec / of_int (matrixWidth tm);
              maxLat = snd (topLeftCorner tm) - of_int r * tileDeltaLat;
              minLat = maxLat - tileDeltaLat;
              minLon = fst (topLeftCorner tm) + tileDeltaLon * of_int c;
              maxLon = minLon + tileDeltaLon
          in Inr (makeTile X L (Sector minLat maxLat minLon maxLon) tm r c))"

text \<open>
  The values that \<^verbatim>\<open>computeTileMatrixValues3857\<close> stores on the tile matrix
  (the pixel span factor 0.28e-3 is written 0.00028):
  tileMatrixDeltaX, tileMatrixDeltaY, mapWidth, mapHeight. The source computes them when
  \<^verbatim>\<open>mapWidth\<close> is falsy and keeps them; they depend on fields that are never written, so
  the stored values are always these.
\<close>

definition computeTileMatrixValues3857 :: "tile_matrix \<Rightarrow> real \<times> real \<times> real \<times> real" where
  "computeTileMatrixValues3857 tm =
     (let pixelSpan = scaleDenominator tm * 0.00028;
          tileSpanX = of_int (tileWidth tm) * pixelSpan;
          tileSpanY = of_int (tileHeight tm) * pixelSpan;
          tileMatrixMaxX = fst (topLeftCorner tm) + tileSpanX * of_int (matrixWidth tm);
          tileMatrixMinY = snd (topLeftCorner tm) - tileSpanY * of_int (matrixHeight tm)
      in (tileMatrixMaxX - fst (topLeftCorner tm),
          snd (topLeftCorner tm) - tileMatrixMinY,
          of_int (tileWidth tm * matrixWidth tm),
          of_int (tileHeight tm * matrixHeight tm)))"

definition createTile3857 ::
  "collaborators \<Rightarrow> wmts_layer \<Rightarrow> tile_matrix \<Rightarrow> int \<Rightarrow> int \<Rightarrow> wmts_tile" where
  "createTile3857 X L tm r c =
     (case computeTileMatrixValues3857 tm of
        (tileMatrixDeltaX, tileMatrixDeltaY, mapWidth, mapHeight) \<Rightarrow>
          let swX = clamp (of_int (c * tileWidth tm) - 0.5) 0 mapWidth;
              neY = clamp (of_int (r * tileHeight tm) - 0.5) 0 mapHeight;
              neX = clamp (swX + of_int (tileWidth tm) + 0.5) 0 mapWidth;
              swY = clamp (neY + of_int (tileHeight tm) + 0.5) 0 mapHeight;
              swLon = fst (topLeftCorner tm) + (swX / mapWidth) * tileMatrixDeltaX;
              swLat = snd (topLeftCorner tm) - (swY / mapHeight) * tileMatrixDeltaY;
              swDegrees = epsg3857ToEpsg4326 X swLon swLat;
              neLon = fst (topLeftCorner tm) + (neX / mapWidth) * tileMatrixDeltaX;
              neLat = snd (topLeftCorner tm) - (neY / mapHeight) * tileMatrixDeltaY;
              neDegrees = epsg3857ToEpsg4326 X neLon neLat
          in makeTile X L (Sector (fst swDegrees) (fst neDegrees) (snd swDegrees) (snd neDegrees))
               tm r c)"

text \<open>
  \<^verbatim>\<open>createTile\<close>: \<open>Inr None\<close> is the \<^verbatim>\<open>undefined\<close> that the function returns when no
  branch is taken.
\<close>

definition createTile ::
  "collaborators \<Rightarrow> wmts_layer \<Rightarrow> tile_matrix \<Rightarrow> int \<Rightarrow> int \<Rightarrow> error + wmts_tile option" where
  "createTile X L tm r c =
     (if isEpsg4326Crs (supportedCRS (tileMatrixSet L)) then
        (case createTile4326 X L tm r c of Inl e \<Rightarrow> Inl e | Inr t \<Rightarrow> Inr (Some t))
      else if isEpsg3857Crs (supportedCRS (tileMatrixSet L)) then
        Inr (Some (createTile3857 X L tm r c))
      else if isOGCCrs84 (supportedCRS (tileMatrixSet L)) then
        (case createTileCrs84 X L tm r c of Inl e \<Rightarrow> Inl e | Inr t \<Rightarrow> Inr (Some t))
      else Inr None)"

section \<open>Reprojection of Mercator images\<close>

text \<open>
  Reading a byte of image data. The index is \<open>None\<close> when it is NaN; at NaN and outside
  the array the read gives \<^verbatim>\<open>undefined\<close>, which a byte array stores as 0. Writing
  outside a byte array has no effect, as \<open>xs[i := v]\<close> has none.
\<close>

definition readByte :: "nat list \<Rightarrow> int option \<Rightarrow> nat" where
  "readByte d k =
     (case k of
        None \<Rightarrow> 0
      | Some i \<Rightarrow> if 0 \<le> i \<and> i < int (length d) then d ! nat i else 0)"

text \<open>
  The body of the loop over x: the four assignments. \<open>srcRow\<close> is the row that the loop
  over y has selected; when it is NaN, so is \<^verbatim>\<open>kSrc\<close>.
\<close>

definition copyPixel ::
  "nat list \<Rightarrow> nat \<Rightarrow> nat \<Rightarrow> int option \<Rightarrow> nat \<Rightarrow> nat list \<Rightarrow> nat list" where
  "copyPixel src w y srcRow x dest =
     (let kSrc = map_option (\<lambda>r. 4 * (int x + r * int w)) srcRow;
          kDest = 4 * (x + y * w)
      in dest[kDest := readByte src kSrc,
              kDest + 1 := readByte src (map_option (\<lambda>k. k + 1) kSrc),
              kDest + 2 := readByte src (map_option (\<lambda>k. k + 2) kSrc),
              kDest + 3 := readByte src (map_option (\<lambda>k. k + 3) kSrc)])"

text \<open>The body of the loop over y: the row is selected, then the loop over x runs.\<close>

definition unprojectRow ::
  "collaborators \<Rightarrow> sector_rec \<Rightarrow> image_rec \<Rightarrow> nat \<Rightarrow> nat list \<Rightarrow> nat list" where
  "unprojectRow X sec img y dest =
     fold (copyPixel (pixels img) (width img) y (sourceRow X sec (height img) y))
       [0..<width img] dest"

text \<open>
  \<^verbatim>\<open>createTexture3857\<close>: the destination image data starts as zeros
  (\<^verbatim>\<open>createImageData\<close>), the loop over y fills it, and the texture is made from the
  destination canvas. The source image data is the image drawn at its own size.
\<close>

definition unprojectImage :: "collaborators \<Rightarrow> sector_rec \<Rightarrow> image_rec \<Rightarrow> image_rec" where
  "unprojectImage X sec img =
     \<lparr>width = width img, height = height img,
      pixels = fold (unprojectRow X sec img) [0..<height img]
                 (replicate (4 * width img * height img) 0)\<rparr>"

definition createTexture3857 :: "collaborators \<Rightarrow> wmts_tile \<Rightarrow> image_rec \<Rightarrow> texture" where
  "createTexture3857 X tile img = Texture X (unprojectImage X (sector tile) img)"

definition createTexture ::
  "collaborators \<Rightarrow> wmts_layer \<Rightarrow> wmts_tile \<Rightarrow> image_rec \<Rightarrow> texture option" where
  "createTexture X L tile img =
     (if isEpsg4326Crs (supportedCRS (tileMatrixSet L)) then Some (Texture X img)
      else if isEpsg3857Crs (supportedCRS (tileMatrixSet L)) then Some (createTexture3857 X tile img)
      else if isOGCCrs84 (supportedCRS (tileMatrixSet L)) then Some (Texture X img)
      else None)"

section \<open>Retrieval of tile images\<close>

definition resourceUrlForTile ::
  "collaborators \<Rightarrow> wmts_layer \<Rightarrow> wmts_tile \<Rightarrow> string \<Rightarrow> string" where
  "resourceUrlForTile X L tile fmt =
     (if truthy (resourceUrl L) then
        let url = jsReplace X (jsReplace X (jsReplace X (jsReplace X (jsReplace X
                    (the (resourceUrl L))
                    ''{Style}'' (strOf (styleIdentifier L)))
                    ''{TileMatrixSet}'' (tms_identifier (tileMatrixSet L)))
                    ''{TileMatrix}'' (tm_identifier (tileMatrix tile)))
                    ''{TileCol}'' (numberToString (column tile)))
                    ''{TileRow}'' (numberToString (row tile))
        in if truthy (timeString L) then jsReplace X url ''{Time}'' (the (timeString L)) else url
      else
        strOf (serviceUrl L) @ ''service=WMTS&request=GetTile&version=1.0.0''
        @ ''&Layer='' @ strOf (layerIdentifier L)
        @ (if truthy (styleIdentifier L) then ''&Style='' @ the (styleIdentifier L) else [])
        @ ''&Format='' @ fmt
        @ (if truthy (timeString L) then ''&Time='' @ the (timeString L) else [])
        @ ''&TileMatrixSet='' @ tms_identifier (tileMatrixSet L)
        @ ''&TileMatrix='' @ tm_identifier (tileMatrix tile)
        @ ''&TileRow='' @ numberToString (row tile)
        @ ''&TileCol='' @ numberToString (column tile))"

definition removeFromCurrentRetrievals :: "string \<Rightarrow> wmts_state \<Rightarrow> wmts_state" where
  "removeFromCurrentRetrievals path s =
     (let index = arrayIndexOf (currentRetrievals s) path in
      if index > - 1 then s\<lparr>currentRetrievals := splice1 (currentRetrievals s) (nat index)\<rparr>
      else s)"

text \<open>
  \<^verbatim>\<open>retrieveTileImage\<close>, up to setting the image's \<^verbatim>\<open>src\<close>, which starts the fetch and is
  recorded in \<open>imageRequests\<close>. The two callbacks run later and are the next definitions.
\<close>

definition retrieveTileImage ::
  "collaborators \<Rightarrow> wmts_layer \<Rightarrow> wmts_tile \<Rightarrow> wmts_state \<Rightarrow> wmts_state" where
  "retrieveTileImage X L tile s =
     (if arrayIndexOf (currentRetrievals s) (imagePath tile) < 0 then
        if isResourceAbsent s (imagePath tile) then s
        else
          let url = resourceUrlForTile X L tile (imageFormat L) in
          if url = [] then s\<lparr>currentTilesInvalid := True\<rparr>
          else s\<lparr>currentRetrievals := currentRetrievals s @ [imagePath tile],
                 imageRequests := imageRequests s @ [(imagePath tile, url)]\<rparr>
      else s)"

text \<open>\<^verbatim>\<open>image.onload\<close> of the retrieval of a tile, for the decoded image.\<close>

definition onload ::
  "collaborators \<Rightarrow> wmts_layer \<Rightarrow> wmts_tile \<Rightarrow> image_rec \<Rightarrow> wmts_state \<Rightarrow> wmts_state" where
  "onload X L tile img s =
     (let texture = createTexture X L tile img;
          s1 = removeFromCurrentRetrievals (imagePath tile) s
      in case texture of
           None \<Rightarrow> s1
         | Some t \<Rightarrow>
             let s2 = putResource (imagePath tile) t (tex_size t) s1;
                 s3 = s2\<lparr>currentTilesInvalid := True\<rparr>;
                 s4 = unmarkResourceAbsent (imagePath tile) s3
             in s4\<lparr>redrawEvents := Suc (redrawEvents s4)\<rparr>)"

text \<open>\<^verbatim>\<open>image.onerror\<close> of the retrieval of a tile.\<close>

definition onerror :: "wmts_tile \<Rightarrow> wmts_state \<Rightarrow> wmts_state" where
  "onerror tile s = markResourceAbsent (imagePath tile) (removeFromCurrentRetrievals (imagePath tile) s)"

text \<open>
  What can happen to the retrieval state: a request for a tile, and the completion or
  the failure of a fetch that is in flight.
\<close>

datatype retrieval_event =
  Request wmts_tile
| Loaded wmts_tile image_rec
| Failed wmts_tile

fun retrievalStep ::
  "collaborators \<Rightarrow> wmts_layer \<Rightarrow> retrieval_event \<Rightarrow> wmts_state \<Rightarrow> wmts_state" where
  "retrievalStep X L (Request tile) s = retrieveTileImage X L tile s"
| "retrievalStep X L (Loaded tile img) s = onload X L tile img s"
| "retrievalStep X L (Failed tile) s = onerror tile s"

definition runRetrievals ::
  "collaborators \<Rightarrow> wmts_layer \<Rightarrow> retrieval_event list \<Rightarrow> wmts_state \<Rightarrow> wmts_state" where
  "runRetrievals X L evs s = fold (retrievalStep X L) evs s"

section \<open>The traversal\<close>

definition isTileVisible :: "collaborators \<Rightarrow> wmts_tile \<Rightarrow> bool" where
  "isTileVisible X tile =
     (case projectionLimits X of
        Some limits \<Rightarrow> if \<not> overlaps X (sector tile) limits then False else intersectsFrustum X tile
      | None \<Rightarrow> intersectsFrustum X tile)"

definition isTextureExpired :: "wmts_layer \<Rightarrow> texture \<Rightarrow> bool" where
  "isTextureExpired L t =
     (case expiration L of None \<Rightarrow> False | Some e \<Rightarrow> creationTime t \<le> e)"

definition isTileTextureInMemory :: "wmts_state \<Rightarrow> wmts_tile \<Rightarrow> bool" where
  "isTileTextureInMemory s tile = containsResource s (imagePath tile)"

definition tileMeetsRenderingCriteria :: "collaborators \<Rightarrow> wmts_layer \<Rightarrow> wmts_tile \<Rightarrow> bool" where
  "tileMeetsRenderingCriteria X L tile =
     (let s = detailControl L;
          s = (if minLatitude (sector tile) \<ge> 75 \<or> maxLatitude (sector tile) \<le> - 75
               then s * 1.2 else s)
      in levelNumber (tileMatrix tile) = int (length (tms_tileMatrix (tileMatrixSet L))) - 1
         \<or> \<not> mustSubdivide X tile s)"

text \<open>
  \<^verbatim>\<open>addTile\<close>. The assignment \<^verbatim>\<open>tile.fallbackTile = null\<close> is the only use of that
  property in the file and is left out.
\<close>

definition addTile ::
  "collaborators \<Rightarrow> wmts_layer \<Rightarrow> wmts_tile \<Rightarrow> wmts_state \<Rightarrow> wmts_state" where
  "addTile X L tile s =
     (case resourceForKey s (imagePath tile) of
        Some texture \<Rightarrow>
          let s1 = s\<lparr>currentTiles := currentTiles s @ [tile]\<rparr> in
          if expiration L \<noteq> None \<and> isTextureExpired L texture
          then retrieveTileImage X L tile s1 else s1
      | None \<Rightarrow>
          let s1 = retrieveTileImage X L tile s in
          (case currentAncestorTile s1 of
             Some ancestor \<Rightarrow>
               if isTileTextureInMemory s1 ancestor
               then s1\<lparr>currentTiles := currentTiles s1 @ [ancestor]\<rparr> else s1
           | None \<Rightarrow> s1))"

datatype completion = Returned | Thrown

text \<open>The \<^verbatim>\<open>finally\<close> block of \<^verbatim>\<open>addTileOrDescendants\<close>.\<close>

definition restoreAncestor :: "wmts_tile option \<Rightarrow> wmts_state \<Rightarrow> wmts_state" where
  "restoreAncestor ancestorTile s =
     (case ancestorTile of Some a \<Rightarrow> s\<lparr>currentAncestorTile := Some a\<rparr> | None \<Rightarrow> s)"

text \<open>
  \<^verbatim>\<open>addTileOrDescendants\<close> and its loop over the sub-tiles. The first argument after
  the layer bounds the depth of the recursion: the result is \<open>None\<close> when the bound is
  reached. The result records whether the call returned or an exception left it; the
  exceptions are those of \<open>subdivideToCache\<close>, of a child that is \<^verbatim>\<open>undefined\<close> and of
  a layer without a sector.
\<close>

fun addTileOrDescendants ::
  "collaborators \<Rightarrow> wmts_layer \<Rightarrow> nat \<Rightarrow> wmts_tile \<Rightarrow> wmts_state
     \<Rightarrow> (completion \<times> wmts_state) option"
and addSubTiles ::
  "collaborators \<Rightarrow> wmts_layer \<Rightarrow> nat \<Rightarrow> wmts_tile option list \<Rightarrow> wmts_state
     \<Rightarrow> (completion \<times> wmts_state) option" where
  "addTileOrDescendants X L 0 tile s = None"
| "addTileOrDescendants X L (Suc n) tile s =
     (if tileMeetsRenderingCriteria X L tile then Some (Returned, addTile X L tile s)
      else
        let becomesAncestor =
              (isTileTextureInMemory s tile \<or> levelNumber (tileMatrix tile) = 0);
            ancestorTile = (if becomesAncestor then currentAncestorTile s else None);
            s1 = (if becomesAncestor then s\<lparr>currentAncestorTile := Some tile\<rparr> else s);
            nextLevel = arrayGet (tms_tileMatrix (tileMatrixSet L)) (levelNumber (tileMatrix tile) + 1)
        in case subdivideToCache X nextLevel tile of
             None \<Rightarrow> Some (Thrown, restoreAncestor ancestorTile s1)
           | Some subTiles \<Rightarrow>
               (case addSubTiles X L n subTiles s1 of
                  None \<Rightarrow> None
                | Some (c, s2) \<Rightarrow> Some (c, restoreAncestor ancestorTile s2)))"
| "addSubTiles X L n [] s = Some (Returned, s)"
| "addSubTiles X L n (None # rest) s = Some (Thrown, s)"
| "addSubTiles X L n (Some child # rest) s =
     (case layerSector L of
        None \<Rightarrow> Some (Thrown, s)
      | Some sec \<Rightarrow>
          if intersects X sec (sector child) \<and> isTileVisible X child then
            (case addTileOrDescendants X L n child s of
               None \<Rightarrow> None
             | Some (Thrown, s1) \<Rightarrow> Some (Thrown, s1)
             | Some (Returned, s1) \<Rightarrow> addSubTiles X L n rest s1)
          else addSubTiles X L n rest s)"

text \<open>
  \<^verbatim>\<open>createTopLevelTiles\<close>: one tile for every cell of the first tile matrix, row by row.
\<close>

definition createTopLevelTiles ::
  "collaborators \<Rightarrow> wmts_layer \<Rightarrow> error + wmts_tile option list" where
  "createTopLevelTiles X L =
     (case tms_tileMatrix (tileMatrixSet L) of
        [] \<Rightarrow> Inl TypeError
      | tm # _ \<Rightarrow>
          let cells = concat (map (\<lambda>j. map (\<lambda>i. createTile X L tm (int j) (int i))
                        [0..<nat (matrixWidth tm)]) [0..<nat (matrixHeight tm)])
          in if list_ex isl cells then Inl TypeError else Inr (map projr cells))"

text \<open>The loop of \<^verbatim>\<open>assembleTiles\<close> over the top level tiles.\<close>

fun assembleLoop ::
  "collaborators \<Rightarrow> wmts_layer \<Rightarrow> nat \<Rightarrow> wmts_tile option list \<Rightarrow> wmts_state
     \<Rightarrow> (completion \<times> wmts_state) option" where
  "assembleLoop X L n [] s = Some (Returned, s)"
| "assembleLoop X L n (None # rest) s = Some (Thrown, s)"
| "assembleLoop X L n (Some tile # rest) s =
     (let s1 = s\<lparr>currentAncestorTile := None\<rparr> in
      if isTileVisible X tile then
        (case addTileOrDescendants X L n tile s1 of
           None \<Rightarrow> None
         | Some (Thrown, s2) \<Rightarrow> Some (Thrown, s2)
         | Some (Returned, s2) \<Rightarrow> assembleLoop X L n rest s2)
      else assembleLoop X L n rest s1)"

definition assembleTiles ::
  "collaborators \<Rightarrow> wmts_layer \<Rightarrow> nat \<Rightarrow> wmts_state \<Rightarrow> (completion \<times> wmts_state) option" where
  "assembleTiles X L n s =
     (let s1 = s\<lparr>currentTiles := []\<rparr> in
      if topLevelTiles s1 = None \<or> topLevelTiles s1 = Some [] then
        (case createTopLevelTiles X L of
           Inl e \<Rightarrow> Some (Thrown, s1\<lparr>topLevelTiles := Some []\<rparr>)
         | Inr tiles \<Rightarrow> assembleLoop X L n tiles (s1\<lparr>topLevelTiles := Some tiles\<rparr>))
      else assembleLoop X L n (the (topLevelTiles s1)) s1)"

section \<open>Predicates of the statements\<close>

text \<open>
  Successive tile matrices double in height, unless the earlier one has height 0 (the
  value at which \<^verbatim>\<open>previousHeight\<close> counts as not set).
\<close>

definition doublingChain :: "tile_matrix list \<Rightarrow> bool" where
  "doublingChain tms =
     successively (\<lambda>a b. matrixHeight a = 0 \<or> matrixHeight b = 2 * matrixHeight a) tms"

text \<open>
  What the claims read of a traversal: how the call ended, the render list and the
  ancestor-of-record it leaves.
\<close>

definition traversalResult ::
  "(completion \<times> wmts_state) option \<Rightarrow> (completion \<times> wmts_tile list \<times> wmts_tile option) option" where
  "traversalResult r = map_option (\<lambda>(c, s). (c, currentTiles s, currentAncestorTile s)) r"

text \<open>The tiles of an array of tiles that are not \<^verbatim>\<open>undefined\<close>.\<close>

fun definedTiles :: "wmts_tile option list \<Rightarrow> wmts_tile list" where
  "definedTiles [] = []"
| "definedTiles (None # rest) = definedTiles rest"
| "definedTiles (Some t # rest) = t # definedTiles rest"

text \<open>
  The sub-tiles that \<^verbatim>\<open>addTileOrDescendants\<close> gets for a tile it subdivides (none when
  the call throws).
\<close>

definition subTilesOf :: "collaborators \<Rightarrow> wmts_layer \<Rightarrow> wmts_tile \<Rightarrow> wmts_tile option list" where
  "subTilesOf X L t =
     (case subdivideToCache X
             (arrayGet (tms_tileMatrix (tileMatrixSet L)) (levelNumber (tileMatrix t) + 1)) t of
        None \<Rightarrow> [] | Some subTiles \<Rightarrow> subTiles)"

text \<open>A tile and one of its sub-tiles.\<close>

definition childRel :: "collaborators \<Rightarrow> wmts_layer \<Rightarrow> (wmts_tile \<times> wmts_tile) set" where
  "childRel X L = {(t, c). c \<in> set (definedTiles (subTilesOf X L t))}"

text \<open>The top level tiles and their descendants.\<close>

definition reachable :: "collaborators \<Rightarrow> wmts_layer \<Rightarrow> wmts_tile option list \<Rightarrow> wmts_tile set" where
  "reachable X L tops = (childRel X L)\<^sup>* `` set (definedTiles tops)"

text \<open>
  The tiles of a frame form a quadtree of distinct tiles: the top level tiles are
  distinct and of one level; the sub-tiles of every reachable tile are distinct and one
  level below it, and no other reachable tile has one of them as a sub-tile.
\<close>

definition quadtree :: "collaborators \<Rightarrow> wmts_layer \<Rightarrow> wmts_tile option list \<Rightarrow> bool" where
  "quadtree X L tops \<longleftrightarrow>
     distinct (definedTiles tops)
     \<and> (\<forall>a \<in> set (definedTiles tops). \<forall>b \<in> set (definedTiles tops).
           levelNumber (tileMatrix a) = levelNumber (tileMatrix b))
     \<and> (\<forall>t \<in> reachable X L tops.
           distinct (definedTiles (subTilesOf X L t))
           \<and> (\<forall>c. (t, c) \<in> childRel X L \<longrightarrow>
                 levelNumber (tileMatrix c) = levelNumber (tileMatrix t) + 1
                 \<and> (\<forall>t' \<in> reachable X L tops. (t', c) \<in> childRel X L \<longrightarrow> t' = t)))"

text \<open>
  The top level tiles that \<^verbatim>\<open>assembleTiles\<close> iterates over: the stored ones, or the
  ones it creates when none are stored.
\<close>

definition frameTopTiles :: "collaborators \<Rightarrow> wmts_layer \<Rightarrow> wmts_state \<Rightarrow> wmts_tile option list" where
  "frameTopTiles X L s =
     (if topLevelTiles s = None \<or> topLevelTiles s = Some [] then
        (case createTopLevelTiles X L of Inl e \<Rightarrow> [] | Inr tiles \<Rightarrow> tiles)
      else the (topLevelTiles s))"

text \<open>
  The render list of the second state extends that of the first, and the new entries
  that satisfy P are distinct and within A.
\<close>

definition pushedWithin ::
  "(wmts_tile \<Rightarrow> bool) \<Rightarrow> wmts_tile set \<Rightarrow> wmts_state \<Rightarrow> wmts_state \<Rightarrow> bool" where
  "pushedWithin P A s s' \<longleftrightarrow>
     (\<exists>new. currentTiles s' = currentTiles s @ new \<and> distinct (filter P new)
            \<and> set (filter P new) \<subseteq> A)"

text \<open>The ancestor-of-record, if there is one, does not satisfy P.\<close>

definition ancestorSubdivided :: "(wmts_tile \<Rightarrow> bool) \<Rightarrow> wmts_state \<Rightarrow> bool" where
  "ancestorSubdivided P s \<longleftrightarrow> (\<forall>a. currentAncestorTile s = Some a \<longrightarrow> \<not> P a)"

section \<open>Example inputs\<close>

definition exLevel :: "int \<Rightarrow> int \<Rightarrow> int \<Rightarrow> tile_matrix" where
  "exLevel n w h =
     \<lparr>levelNumber = n, matrixWidth = w, matrixHeight = h, tileWidth = 256, tileHeight = 256,
      topLeftCorner = (90, - 180), scaleDenominator = 1, tm_identifier = numberToString n\<rparr>"

definition exSet :: "string \<Rightarrow> tile_matrix list \<Rightarrow> tile_matrix_set" where
  "exSet name levels =
     \<lparr>tms_identifier = name, supportedCRS = ''EPSG:4326'',
      wellKnownScaleSet = None, tms_boundingBox = None, tms_tileMatrix = levels\<rparr>"

definition exCaps :: "tile_matrix_set list \<Rightarrow> layer_caps" where
  "exCaps sets =
     \<lparr>lc_identifier = ''l'', style = [\<lparr>style_identifier = ''s'', isDefault = True\<rparr>],
      dimension = None, format = [''image/png''],
      lc_resourceUrl = Some [\<lparr>ru_format = ''image/png'',
        template = ''h/{TileMatrix}/{TileRow}/{TileCol}''\<rparr>],
      getTileKvpAddress = None, supportedTileMatrixSets = sets, lc_boundingBox = None,
      lc_wgs84BoundingBox = Some \<lparr>lowerCorner = (- 180, - 90), upperCorner = (180, 90),
        bbox_crs = ''CRS:84''\<rparr>,
      titles = []\<rparr>"

text \<open>
  A stand-in for \<^verbatim>\<open>String.prototype.replace\<close> in the examples: the first occurrence
  of the pattern is replaced.
\<close>

fun replaceFirst :: "string \<Rightarrow> string \<Rightarrow> string \<Rightarrow> string" where
  "replaceFirst [] pat rep = (if pat = [] then rep else [])"
| "replaceFirst (c # cs) pat rep =
     (if take (length pat) (c # cs) = pat then rep @ drop (length pat) (c # cs)
      else c # replaceFirst cs pat rep)"

text \<open>
  Collaborators for the examples: every tile is in view, a tile must subdivide unless the
  threshold is exactly 2.1, no tile has children, and in a Mercator image an odd
  destination row takes the source row above it.
\<close>

definition exX :: collaborators where
  "exX =
     \<lparr>mustSubdivide = (\<lambda>t s. s \<noteq> 2.1), intersectsFrustum = (\<lambda>t. True),
      projectionLimits = None, overlaps = (\<lambda>a b. True), intersects = (\<lambda>a b. True),
      subdivideToCache = (\<lambda>nextLevel t. Some []), suffixForMimeType = (\<lambda>m. ''png''),
      jsReplace = replaceFirst, sourceRow = (\<lambda>sec h y. Some (2 * (int y div 2))),
      epsg3857ToEpsg4326 = (\<lambda>x y. (y, x)),
      textureSize = (\<lambda>img. 4 * width img * height img), clock = 0\<rparr>"

definition exConfig :: "tile_matrix_set \<Rightarrow> config" where
  "exConfig tms =
     \<lparr>cfg_layerIdentifier = Some ''l'', cfg_styleIdentifier = Some ''s'', cfg_timeString = None,
      cfg_imageFormat = Some ''image/png'',
      cfg_resourceUrl = None,
      cfg_serviceUrl = Some ''h?'', cfg_tileMatrixSet = Some tms, cfg_boundingBox = None,
      cfg_wgs84BoundingBox = Some \<lparr>lowerCorner = (- 180, - 90), upperCorner = (180, 90),
        bbox_crs = ''CRS:84''\<rparr>,
      cfg_title = ''l''\<rparr>"

text \<open>The layer that the constructor builds from \<open>exConfig\<close>.\<close>

definition exLayer :: "tile_matrix_set \<Rightarrow> wmts_layer" where
  "exLayer tms =
     \<lparr>layerIdentifier = Some ''l'', styleIdentifier = Some ''s'', timeString = None,
      imageFormat = ''image/png'',
      resourceUrl = None, serviceUrl = Some ''h?'', tileMatrixSet = tms,
      layerSector = Some (Sector (- 90) 90 (- 180) 180),
      cachePath = ''h?ls'' @ tms_identifier tms,
      detailControl = 1.75, expiration = None\<rparr>"

definition exPolarTile :: wmts_tile where
  "exPolarTile =
     \<lparr>sector = Sector 78.75 90 0 11.25, tileMatrix = exLevel 0 2 1, row = 0, column = 16,
      imagePath = ''polar''\<rparr>"

definition exUnsupportedSet :: tile_matrix_set where
  "exUnsupportedSet =
     \<lparr>tms_identifier = ''utm'', supportedCRS = ''EPSG:32633'',
      wellKnownScaleSet = None, tms_boundingBox = None,
      tms_tileMatrix = [exLevel 0 2 1, exLevel 1 4 2]\<rparr>"

definition exImage :: image_rec where
  "exImage = \<lparr>width = 1, height = 2, pixels = [10, 20, 30, 255, 40, 50, 60, 255]\<rparr>"

definition exTwoLevels :: tile_matrix_set where
  "exTwoLevels = exSet ''A'' [exLevel 0 2 1, exLevel 1 4 2]"

definition exTopTile :: wmts_tile where
  "exTopTile = makeTile exX (exLayer exTwoLevels) (Sector (- 90) 90 (- 180) 0) (exLevel 0 2 1) 0 0"

text \<open>The state after the first request for the top tile: its retrieval is in flight.\<close>

definition exInFlight :: wmts_state where
  "exInFlight = retrieveTileImage exX (exLayer exTwoLevels) exTopTile initialState"

text \<open>
  A stand-in for \<^verbatim>\<open>subdivideToCache\<close> in the examples: the four children of a tile,
  made by the layer's \<^verbatim>\<open>createTile\<close>; a TypeError past the last level.
\<close>

definition exSubdivide ::
  "wmts_layer \<Rightarrow> tile_matrix option \<Rightarrow> wmts_tile \<Rightarrow> wmts_tile option list option" where
  "exSubdivide L nextLevel t =
     (case nextLevel of
        None \<Rightarrow> None
      | Some tm \<Rightarrow>
          Some (map (\<lambda>(i, j).
                  case createTile exX L tm (2 * row t + i) (2 * column t + j) of
                    Inr child \<Rightarrow> child | Inl e \<Rightarrow> None)
                [(0, 0), (0, 1), (1, 0), (1, 1)]))"

definition exThreeLevels :: tile_matrix_set where
  "exThreeLevels = exSet ''A'' [exLevel 0 2 1, exLevel 1 4 2, exLevel 2 8 4]"

text \<open>
  Collaborators for the traversal examples: quad subdivision, and a view that holds the
  tiles reaching north of latitude 10 and west of longitude -10.
\<close>

definition exQuad :: "tile_matrix_set \<Rightarrow> collaborators" where
  "exQuad tms =
     exX\<lparr>subdivideToCache := exSubdivide (exLayer tms),
         intersectsFrustum := (\<lambda>t. maxLatitude (sector t) > 10 \<and> minLongitude (sector t) < - 10)\<rparr>"

definition exMidTile :: wmts_tile where
  "exMidTile = makeTile exX (exLayer exThreeLevels) (Sector 0 90 (- 180) (- 90)) (exLevel 1 4 2) 0 0"

text \<open>A fresh layer whose top-left tile already has its texture in the cache.\<close>

definition exTopCached :: wmts_state where
  "exTopCached =
     initialState\<lparr>gpuResourceCache := [imagePath exTopTile \<mapsto> (Texture exX exImage, 8)]\<rparr>"

text \<open>
  The state in which a traversal enters the level 1 tile below the top tile, the texture
  of the level 1 tile being in the cache.
\<close>

definition exMidEntry :: wmts_state where
  "exMidEntry =
     initialState\<lparr>currentAncestorTile := Some exTopTile,
       gpuResourceCache := [imagePath exMidTile \<mapsto> (Texture exX exImage, 8)]\<rparr>"

text \<open>Collaborators for a distant camera: no tile needs subdividing.\<close>

definition exFar :: collaborators where
  "exFar = exX\<lparr>mustSubdivide := (\<lambda>t s. False)\<rparr>"

definition exTopReady :: wmts_state where
  "exTopReady = exTopCached\<lparr>topLevelTiles := Some [Some exTopTile]\<rparr>"

text \<open>A tile of a Mercator layer, for the reprojection example.\<close>

definition exMercatorTile :: wmts_tile where
  "exMercatorTile =
     \<lparr>sector = Sector 0 45 0 45, tileMatrix = exLevel 3 8 8, row = 3, column = 4,
      imagePath = ''m/3/3/4.png''\<rparr>"

text \<open>The two northern children of the top tile.\<close>

definition exChildA :: wmts_tile where
  "exChildA = makeTile exX (exLayer exTwoLevels) (Sector 0 90 (- 180) (- 90)) (exLevel 1 4 2) 0 0"

definition exChildB :: wmts_tile where
  "exChildB = makeTile exX (exLayer exTwoLevels) (Sector 0 90 (- 90) 0) (exLevel 1 4 2) 0 1"

text \<open>Collaborators whose subdivision gives the top tile its two northern children.\<close>

definition exTable :: collaborators where
  "exTable =
     exX\<lparr>subdivideToCache :=
           (\<lambda>nextLevel t. if t = exTopTile then Some [Some exChildA, Some exChildB] else Some [])\<rparr>"

text \<open>
  A state with the top tile stored as the only top level tile, and the textures of the
  top tile and of its first child in the cache.
\<close>

definition exTwoCached :: wmts_state where
  "exTwoCached =
     initialState\<lparr>topLevelTiles := Some [Some exTopTile],
       gpuResourceCache := [imagePath exTopTile \<mapsto> (Texture exX exImage, 8),
                            imagePath exChildA \<mapsto> (Texture exX exImage, 8)]\<rparr>"

text \<open>
  A CRS84 tile matrix set, the capabilities of a layer that offers it with a bounding
  box of its own and no WGS84 bounding box, the configuration that
  \<^verbatim>\<open>createConfigurationFromLayer\<close> makes of them, and the layer that the constructor
  builds from it.
\<close>

definition exCrs84Level :: "int \<Rightarrow> int \<Rightarrow> int \<Rightarrow> tile_matrix" where
  "exCrs84Level n w h = (exLevel n w h)\<lparr>topLeftCorner := (- 180, 90)\<rparr>"

definition exCrs84Set :: tile_matrix_set where
  "exCrs84Set =
     \<lparr>tms_identifier = ''C'', supportedCRS = ''urn:ogc:def:crs:OGC:1.3:CRS84'',
      wellKnownScaleSet = None, tms_boundingBox = None,
      tms_tileMatrix = [exCrs84Level 0 2 1, exCrs84Level 1 4 2]\<rparr>"

definition exCrs84Caps :: layer_caps where
  "exCrs84Caps =
     (exCaps [exCrs84Set])
       \<lparr>lc_boundingBox := Some [\<lparr>lowerCorner = (- 180, - 90), upperCorner = (180, 90),
           bbox_crs = ''urn:ogc:def:crs:OGC:1.3:CRS84''\<rparr>],
        lc_wgs84BoundingBox := None\<rparr>"

definition exCrs84Config :: config where
  "exCrs84Config =
     \<lparr>cfg_layerIdentifier = Some ''l'', cfg_styleIdentifier = Some ''s'', cfg_timeString = None,
      cfg_imageFormat = Some ''image/png'',
      cfg_resourceUrl = Some ''h/{TileMatrix}/{TileRow}/{TileCol}'',
      cfg_serviceUrl = None, cfg_tileMatrixSet = Some exCrs84Set,
      cfg_boundingBox = Some [\<lparr>lowerCorner = (- 180, - 90), upperCorner = (180, 90),
        bbox_crs = ''urn:ogc:def:crs:OGC:1.3:CRS84''\<rparr>],
      cfg_wgs84BoundingBox = None,
      cfg_title = ''l''\<rparr>"

definition exCrs84Layer :: wmts_layer where
  "exCrs84Layer =
     \<lparr>layerIdentifier = Some ''l'', styleIdentifier = Some ''s'', timeString = None,
      imageFormat = ''image/png'',
      resourceUrl = Some ''h/{TileMatrix}/{TileRow}/{TileCol}'', serviceUrl = None,
      tileMatrixSet = exCrs84Set,
      layerSector = None,
      cachePath = ''h/{TileMatrix}/{TileRow}/{TileCol}lsC'',
      detailControl = 1.75, expiration = None\<rparr>"

section \<open>Properties of the capabilities negotiation\<close>

lemma laterLevels_checked: "tm \<in> set (laterLevels crs p tms) \<Longrightarrow> passesChecks crs tm \<and> tm \<in> set tms"
  by (induction crs p tms rule: laterLevels.induct) (auto split: if_splits)

lemma laterLevels_head:
  "laterLevels crs p tms = a # as \<Longrightarrow> p = 0 \<or> matrixHeight a = 2 * p"
  by (induction crs p tms rule: laterLevels.induct) (auto split: if_splits)

lemma laterLevels_chain: "doublingChain (laterLevels crs p tms)"
  unfolding doublingChain_def
proof (induction crs p tms rule: laterLevels.induct)
  case (1 crs p)
  then show ?case by simp
next
  case (2 crs p tm rest)
  show ?case
  proof (cases "passesChecks crs tm \<and> (p = 0 \<or> 2 * p = matrixHeight tm)")
    case True
    then have eq: "laterLevels crs p (tm # rest) = tm # laterLevels crs (matrixHeight tm) rest"
      by auto
    have ih: "successively (\<lambda>a b. matrixHeight a = 0 \<or> matrixHeight b = 2 * matrixHeight a)
                (laterLevels crs (matrixHeight tm) rest)"
      using 2 True by auto
    show ?thesis
    proof (cases "laterLevels crs (matrixHeight tm) rest")
      case Nil
      then show ?thesis using eq by simp
    next
      case (Cons b bs)
      from laterLevels_head[OF Cons] ih Cons eq show ?thesis
        by (simp add: successively_Cons)
    qed
  next
    case False
    then show ?thesis using 2 by auto
  qed
qed

lemma convertTileMatrixSets_each:
  "convertTileMatrixSets (Some caps)
     = Inr (List.map_filter convertTileMatrixSet (supportedTileMatrixSets caps))"
  by (simp add: convertTileMatrixSets_def)

text \<open>
  What the loop over the tile matrices of a set with a supported CRS retains. The first
  tile matrix is always retained; every tile matrix retained after it has the aspect
  ratio of the CRS (square for EPSG:3857, otherwise twice as wide as high), even
  dimensions, square tiles and tiles of 256 pixels. The doubling of the height is
  established only among the tile matrices retained after the first: each has exactly
  double the height of the one retained before it, unless that height is 0. The height
  of the first tile matrix is never recorded in \<^verbatim>\<open>previousHeight\<close>, so nothing relates
  it to the next one retained. The set is discarded exactly when fewer than two tile
  matrices are retained, and otherwise the converted set holds the retained ones.
\<close>

theorem convertTileMatrixSets_retained_levels:
  assumes "supportedCrs (supportedCRS s)" and "tms_tileMatrix s = tm0 # rest"
  shows "hd (compatibleTileMatrices (supportedCRS s) (tms_tileMatrix s)) = tm0
    \<and> (\<forall>tm \<in> set (tl (compatibleTileMatrices (supportedCRS s) (tms_tileMatrix s))).
          tm \<in> set rest
          \<and> (if isEpsg3857Crs (supportedCRS s) then matrixHeight tm = matrixWidth tm
              else matrixWidth tm = 2 * matrixHeight tm)
          \<and> even (matrixHeight tm) \<and> even (matrixWidth tm)
          \<and> tileHeight tm = tileWidth tm \<and> tileHeight tm = 256)
    \<and> doublingChain (tl (compatibleTileMatrices (supportedCRS s) (tms_tileMatrix s)))
    \<and> (convertTileMatrixSet s = None
          \<longleftrightarrow> length (compatibleTileMatrices (supportedCRS s) (tms_tileMatrix s)) < 2)
    \<and> (\<forall>c. convertTileMatrixSet s = Some c \<longrightarrow>
          tms_tileMatrix c = compatibleTileMatrices (supportedCRS s) (tms_tileMatrix s))"
proof -
  let ?crs = "supportedCRS s"
  have comp: "compatibleTileMatrices ?crs (tms_tileMatrix s) = tm0 # laterLevels ?crs 0 rest"
    using assms(2) by (simp add: compatibleTileMatrices_def)
  have checks: "tm \<in> set rest
      \<and> (if isEpsg3857Crs ?crs then matrixHeight tm = matrixWidth tm
          else matrixWidth tm = 2 * matrixHeight tm)
      \<and> even (matrixHeight tm) \<and> even (matrixWidth tm)
      \<and> tileHeight tm = tileWidth tm \<and> tileHeight tm = 256"
    if "tm \<in> set (laterLevels ?crs 0 rest)" for tm
  proof -
    from laterLevels_checked[OF that] have p: "passesChecks ?crs tm" and m: "tm \<in> set rest"
      by simp_all
    from p show ?thesis
      using m by (auto simp: passesChecks_def aspectRatioOk_def even_iff_mod_2_eq_zero
          split: if_splits)
  qed
  have discard: "convertTileMatrixSet s = None \<longleftrightarrow> length (tm0 # laterLevels ?crs 0 rest) < 2"
    using assms(1) comp by (auto simp: convertTileMatrixSet_def Let_def)
  have kept: "tms_tileMatrix c = tm0 # laterLevels ?crs 0 rest"
    if "convertTileMatrixSet s = Some c" for c
    using that assms(1) comp by (auto simp: convertTileMatrixSet_def Let_def split: if_splits)
  have all_checked: "\<forall>tm \<in> set (laterLevels ?crs 0 rest).
      tm \<in> set rest
      \<and> (if isEpsg3857Crs ?crs then matrixHeight tm = matrixWidth tm
          else matrixWidth tm = 2 * matrixHeight tm)
      \<and> even (matrixHeight tm) \<and> even (matrixWidth tm)
      \<and> tileHeight tm = tileWidth tm \<and> tileHeight tm = 256"
    using checks by blast
  show ?thesis
    unfolding comp list.sel
    using all_checked discard kept laterLevels_chain[of ?crs 0 rest] by blast
qed

text \<open>
  An instance: a set whose second level jumps from height 1 to 4, whose third doubles
  it, and whose fourth is odd.
\<close>

theorem convertTileMatrixSets_retained_levels_witness:
  "supportedCrs (supportedCRS (exSet ''W'' [exLevel 0 2 1, exLevel 1 8 4, exLevel 2 16 8, exLevel 3 20 10]))
   \<and> compatibleTileMatrices ''EPSG:4326''
        [exLevel 0 2 1, exLevel 1 8 4, exLevel 2 16 8, exLevel 3 20 10]
       = [exLevel 0 2 1, exLevel 1 8 4, exLevel 2 16 8]
   \<and> doublingChain (tl (compatibleTileMatrices ''EPSG:4326''
        [exLevel 0 2 1, exLevel 1 8 4, exLevel 2 16 8, exLevel 3 20 10]))
   \<and> convertTileMatrixSet (exSet ''W'' [exLevel 0 2 1, exLevel 1 8 4, exLevel 2 16 8, exLevel 3 20 10])
       \<noteq> None"
proof -
  let ?s = "exSet ''W'' [exLevel 0 2 1, exLevel 1 8 4, exLevel 2 16 8, exLevel 3 20 10]"
  have h1: "supportedCrs (supportedCRS ?s)"
    by code_simp
  have h2: "tms_tileMatrix ?s = exLevel 0 2 1 # [exLevel 1 8 4, exLevel 2 16 8, exLevel 3 20 10]"
    by (simp add: exSet_def)
  have crs: "supportedCRS ?s = ''EPSG:4326''"
    by (simp add: exSet_def)
  have c: "compatibleTileMatrices ''EPSG:4326''
        [exLevel 0 2 1, exLevel 1 8 4, exLevel 2 16 8, exLevel 3 20 10]
       = [exLevel 0 2 1, exLevel 1 8 4, exLevel 2 16 8]"
    by code_simp
  from convertTileMatrixSets_retained_levels[OF h1 h2]
  have "doublingChain (tl (compatibleTileMatrices (supportedCRS ?s) (tms_tileMatrix ?s)))"
    and "convertTileMatrixSet ?s = None
          \<longleftrightarrow> length (compatibleTileMatrices (supportedCRS ?s) (tms_tileMatrix ?s)) < 2"
    by blast+
  then show ?thesis
    using h1 c unfolding crs h2 by simp
qed

text \<open>
  Claim C3 at a failing input. A tile matrix set in EPSG:4326 has level 0 of 2 by 1
  tiles and a next level of 8 by 4 tiles (twice as wide as high, even, square tiles of
  256 pixels). The test on the height was written to ensure the quad division of the
  previous tile matrix, and 4 is not the double of 1; yet both levels are retained and
  the set is kept, where a comparison with level 0 drops the second level and discards
  the set. Likewise a set with levels of 2 by 1, 3 by 2, 5 by 3, 10 by 5, 20 by 10 and
  40 by 20 tiles is reduced to the levels of heights 1, 10 and 20.
\<close>

theorem convertTileMatrixSets_level0_not_compared:
  "convertTileMatrixSets (Some (exCaps [exSet ''jump'' [exLevel 0 2 1, exLevel 1 8 4]]))
     = Inr [exSet ''jump'' [exLevel 0 2 1, exLevel 1 8 4]]
   \<and> matrixHeight (exLevel 1 8 4) \<noteq> 2 * matrixHeight (exLevel 0 2 1)
   \<and> convertTileMatrixSets
       (Some (exCaps [exSet ''gibs'' [exLevel 0 2 1, exLevel 1 3 2, exLevel 2 5 3,
                                      exLevel 3 10 5, exLevel 4 20 10, exLevel 5 40 20]]))
     = Inr [exSet ''gibs'' [exLevel 0 2 1, exLevel 4 20 10, exLevel 5 40 20]]
   \<and> matrixHeight (exLevel 4 20 10) \<noteq> 2 * matrixHeight (exLevel 0 2 1)"
  by code_simp

lemma selectionLoop_last:
  "sets \<noteq> [] \<Longrightarrow> snd (selectionLoop sets st) = Some (last sets)"
proof (induction sets arbitrary: st)
  case Nil
  then show ?case by simp
next
  case (Cons a sets)
  obtain h t where st: "st = (h, t)" by (cases st)
  show ?case
  proof (cases sets)
    case Nil
    then show ?thesis using st by (auto split: option.splits)
  next
    case (Cons b bs)
    then show ?thesis using Cons.IH st by (simp split: option.splits)
  qed
qed

text \<open>
  Claim C1 at a failing input. The capabilities offer set A with three conforming levels
  and then set B with two; both are compatible, and the configuration holds B, the set
  the loop visited last, not A, the set with the most levels.
\<close>

theorem createConfigurationFromLayer_takes_last_set:
  "convertTileMatrixSets
      (Some (exCaps [exSet ''A'' [exLevel 0 2 1, exLevel 1 4 2, exLevel 2 8 4],
                     exSet ''B'' [exLevel 0 2 1, exLevel 1 4 2]]))
     = Inr [exSet ''A'' [exLevel 0 2 1, exLevel 1 4 2, exLevel 2 8 4],
            exSet ''B'' [exLevel 0 2 1, exLevel 1 4 2]]
   \<and> map_sum id cfg_tileMatrixSet
       (createConfigurationFromLayer fixGetMapString
         (Some (exCaps [exSet ''A'' [exLevel 0 2 1, exLevel 1 4 2, exLevel 2 8 4],
                        exSet ''B'' [exLevel 0 2 1, exLevel 1 4 2]])))
     = Inr (Some (exSet ''B'' [exLevel 0 2 1, exLevel 1 4 2]))"
  by code_simp

section \<open>Properties of tile addressing and of the rendering criterion\<close>

lemma exLayer_constructed: "WmtsLayer (Some (exConfig tms)) = Inr (exLayer tms)"
  by (simp add: WmtsLayer_def exConfig_def exLayer_def truthy_def strOf_def sectorOfBox_def)

lemma exConfig_created:
  "createConfigurationFromLayer (\<lambda>u. u)
      (Some ((exCaps [exSet ''A'' [exLevel 0 2 1, exLevel 1 4 2]])
         \<lparr>lc_resourceUrl := None, getTileKvpAddress := Some ''h?''\<rparr>))
    = Inr (exConfig (exSet ''A'' [exLevel 0 2 1, exLevel 1 4 2]))"
  by code_simp

lemma WmtsLayer_detailControl: "WmtsLayer cfg = Inr L \<Longrightarrow> detailControl L = 1.75"
  by (auto simp: WmtsLayer_def Let_def split: option.splits if_splits)

text \<open>
  Claim C10. When the CRS of the layer's tile matrix set is in none of the three supported
  families, \<^verbatim>\<open>createTile\<close> returns \<^verbatim>\<open>undefined\<close> without an error, and so does
  \<^verbatim>\<open>createTexture\<close>.
\<close>

theorem createTile_unsupported_crs:
  assumes "\<not> supportedCrs (supportedCRS (tileMatrixSet L))"
  shows "createTile X L tm r c = Inr None \<and> createTexture X L tile img = None"
  using assms by (simp add: createTile_def createTexture_def supportedCrs_def)

text \<open>
  In a layer that has a sector and whose CRS takes the EPSG:4326 branch or the CRS84
  branch of \<^verbatim>\<open>createTile\<close>, for a tile matrix of positive width and height and every row
  and column, the tile, its right neighbour and the tile below it are created, the east
  edge of the tile is the west edge of its right neighbour, and its south edge is the
  north edge of the tile below (over the real numbers).
\<close>

theorem createTile_adjacent_sectors:
  assumes "isEpsg4326Crs (supportedCRS (tileMatrixSet L))
           \<or> (\<not> isEpsg3857Crs (supportedCRS (tileMatrixSet L))
               \<and> isOGCCrs84 (supportedCRS (tileMatrixSet L)))"
    and "layerSector L = Some sec"
    and "0 < matrixWidth tm" and "0 < matrixHeight tm"
  shows "\<exists>t right below.
           createTile X L tm r c = Inr (Some t)
         \<and> createTile X L tm r (c + 1) = Inr (Some right)
         \<and> createTile X L tm (r + 1) c = Inr (Some below)
         \<and> maxLongitude (sector t) = minLongitude (sector right)
         \<and> minLatitude (sector t) = maxLatitude (sector below)"
  using assms
  by (auto simp: createTile_def createTile4326_def createTileCrs84_def makeTile_def
      Sector_def Let_def algebra_simps)

text \<open>
  Claim C8. \<^verbatim>\<open>tileMeetsRenderingCriteria\<close> is true for a tile of the last level; for any
  other tile it is the negation of \<^verbatim>\<open>mustSubdivide\<close> at the layer's detail control,
  multiplied by 1.2 exactly when the tile's sector has minLatitude at least 75 or
  maxLatitude at most -75; for a layer as the constructor builds it (detail control 1.75)
  the threshold of such a tile is 2.1.
\<close>

theorem tileMeetsRenderingCriteria_threshold:
  "(levelNumber (tileMatrix tile) = int (length (tms_tileMatrix (tileMatrixSet L))) - 1
      \<longrightarrow> tileMeetsRenderingCriteria X L tile)
   \<and> (levelNumber (tileMatrix tile) \<noteq> int (length (tms_tileMatrix (tileMatrixSet L))) - 1
      \<longrightarrow> tileMeetsRenderingCriteria X L tile
          = (\<not> mustSubdivide X tile
               (if minLatitude (sector tile) \<ge> 75 \<or> maxLatitude (sector tile) \<le> - 75
                then detailControl L * 1.2 else detailControl L)))
   \<and> (WmtsLayer cfg = Inr L
       \<and> levelNumber (tileMatrix tile) \<noteq> int (length (tms_tileMatrix (tileMatrixSet L))) - 1
       \<and> (minLatitude (sector tile) \<ge> 75 \<or> maxLatitude (sector tile) \<le> - 75)
      \<longrightarrow> tileMeetsRenderingCriteria X L tile = (\<not> mustSubdivide X tile 2.1))"
proof (intro conjI impI)
  assume "levelNumber (tileMatrix tile) = int (length (tms_tileMatrix (tileMatrixSet L))) - 1"
  then show "tileMeetsRenderingCriteria X L tile"
    by (simp add: tileMeetsRenderingCriteria_def Let_def)
next
  assume "levelNumber (tileMatrix tile) \<noteq> int (length (tms_tileMatrix (tileMatrixSet L))) - 1"
  then show "tileMeetsRenderingCriteria X L tile
          = (\<not> mustSubdivide X tile
               (if minLatitude (sector tile) \<ge> 75 \<or> maxLatitude (sector tile) \<le> - 75
                then detailControl L * 1.2 else detailControl L))"
    by (simp add: tileMeetsRenderingCriteria_def Let_def)
next
  assume a: "WmtsLayer cfg = Inr L
       \<and> levelNumber (tileMatrix tile) \<noteq> int (length (tms_tileMatrix (tileMatrixSet L))) - 1
       \<and> (minLatitude (sector tile) \<ge> 75 \<or> maxLatitude (sector tile) \<le> - 75)"
  then have "detailControl L = 1.75"
    using WmtsLayer_detailControl by blast
  then have s: "detailControl L * 1.2 = 2.1"
    by simp
  from a have "tileMeetsRenderingCriteria X L tile = (\<not> mustSubdivide X tile (detailControl L * 1.2))"
    by (auto simp: tileMeetsRenderingCriteria_def Let_def)
  then show "tileMeetsRenderingCriteria X L tile = (\<not> mustSubdivide X tile 2.1)"
    unfolding s .
qed

text \<open>
  An instance for claim C8: a tile north of latitude 75 in a layer the constructor built.
\<close>

theorem tileMeetsRenderingCriteria_threshold_witness:
  "WmtsLayer (Some (exConfig (exSet ''A'' [exLevel 0 2 1, exLevel 1 4 2])))
     = Inr (exLayer (exSet ''A'' [exLevel 0 2 1, exLevel 1 4 2]))
   \<and> levelNumber (tileMatrix exPolarTile)
       \<noteq> int (length (tms_tileMatrix (tileMatrixSet (exLayer (exSet ''A'' [exLevel 0 2 1, exLevel 1 4 2]))))) - 1
   \<and> minLatitude (sector exPolarTile) \<ge> 75
   \<and> tileMeetsRenderingCriteria exX (exLayer (exSet ''A'' [exLevel 0 2 1, exLevel 1 4 2])) exPolarTile
   \<and> \<not> mustSubdivide exX exPolarTile 2.1"
proof -
  let ?L = "exLayer (exSet ''A'' [exLevel 0 2 1, exLevel 1 4 2])"
  have h1: "WmtsLayer (Some (exConfig (exSet ''A'' [exLevel 0 2 1, exLevel 1 4 2]))) = Inr ?L"
    by (rule exLayer_constructed)
  have h2: "levelNumber (tileMatrix exPolarTile)
       \<noteq> int (length (tms_tileMatrix (tileMatrixSet ?L))) - 1"
    by (simp add: exPolarTile_def exLevel_def exLayer_def exSet_def)
  have h3: "minLatitude (sector exPolarTile) \<ge> 75"
    by (simp add: exPolarTile_def Sector_def)
  have m: "\<not> mustSubdivide exX exPolarTile 2.1"
    by (simp add: exX_def)
  from tileMeetsRenderingCriteria_threshold[of exPolarTile ?L exX
      "Some (exConfig (exSet ''A'' [exLevel 0 2 1, exLevel 1 4 2]))"] h1 h2 h3 m
  have "tileMeetsRenderingCriteria exX ?L exPolarTile"
    by blast
  with h1 h2 h3 m show ?thesis by blast
qed

text \<open>
  An instance for claim C10: a layer whose tile matrix set is in a UTM zone.
\<close>

theorem createTile_unsupported_crs_witness:
  "\<not> supportedCrs (supportedCRS (tileMatrixSet (exLayer exUnsupportedSet)))
   \<and> createTile exX (exLayer exUnsupportedSet) (exLevel 0 2 1) 0 0 = Inr None
   \<and> createTexture exX (exLayer exUnsupportedSet) exPolarTile exImage = None"
proof -
  have h: "\<not> supportedCrs (supportedCRS (tileMatrixSet (exLayer exUnsupportedSet)))"
    by code_simp
  from createTile_unsupported_crs[OF h, of exX "exLevel 0 2 1" 0 0 exPolarTile exImage] h
  show ?thesis by simp
qed

text \<open>
  An instance: the first tile of level 1 of an EPSG:4326 layer.
\<close>

theorem createTile_adjacent_sectors_witness:
  "isEpsg4326Crs (supportedCRS (tileMatrixSet (exLayer (exSet ''A'' [exLevel 0 2 1, exLevel 1 4 2]))))
   \<and> layerSector (exLayer (exSet ''A'' [exLevel 0 2 1, exLevel 1 4 2])) = Some (Sector (- 90) 90 (- 180) 180)
   \<and> 0 < matrixWidth (exLevel 1 4 2) \<and> 0 < matrixHeight (exLevel 1 4 2)
   \<and> (\<exists>t right below.
         createTile exX (exLayer (exSet ''A'' [exLevel 0 2 1, exLevel 1 4 2])) (exLevel 1 4 2) 0 0 = Inr (Some t)
       \<and> createTile exX (exLayer (exSet ''A'' [exLevel 0 2 1, exLevel 1 4 2])) (exLevel 1 4 2) 0 (0 + 1) = Inr (Some right)
       \<and> createTile exX (exLayer (exSet ''A'' [exLevel 0 2 1, exLevel 1 4 2])) (exLevel 1 4 2) (0 + 1) 0 = Inr (Some below)
       \<and> maxLongitude (sector t) = minLongitude (sector right)
       \<and> minLatitude (sector t) = maxLatitude (sector below))"
proof -
  let ?L = "exLayer (exSet ''A'' [exLevel 0 2 1, exLevel 1 4 2])"
  have h1: "isEpsg4326Crs (supportedCRS (tileMatrixSet ?L))"
    by code_simp
  have h2: "layerSector ?L = Some (Sector (- 90) 90 (- 180) 180)"
    by (simp add: exLayer_def)
  have h3: "0 < matrixWidth (exLevel 1 4 2)" and h4: "0 < matrixHeight (exLevel 1 4 2)"
    by (simp_all add: exLevel_def)
  from createTile_adjacent_sectors[OF disjI1[OF h1] h2 h3 h4, of exX 0 0] h1 h2 h3 h4
  show ?thesis by blast
qed

lemma exCrs84_branch:
  "\<not> isEpsg4326Crs ''urn:ogc:def:crs:OGC:1.3:CRS84''"
  "\<not> isEpsg3857Crs ''urn:ogc:def:crs:OGC:1.3:CRS84''"
  "isOGCCrs84 ''urn:ogc:def:crs:OGC:1.3:CRS84''"
  by code_simp+

text \<open>
  Claim C7 at a failing input. The capabilities of a layer offer a CRS84 tile matrix set
  and give the layer a bounding box but no WGS84 bounding box; the tile matrix set has no
  bounding box. The constructor requires a sector of EPSG:4326 layers only and returns
  this layer with \<^verbatim>\<open>sector\<close> undefined; \<^verbatim>\<open>createTile\<close> takes the CRS84 branch, where
  \<^verbatim>\<open>createTileCrs84\<close> calls \<^verbatim>\<open>this.sector.deltaLatitude()\<close>, and throws a TypeError for a
  tile, for its right neighbour and for the tile below it: no tile of a tile matrix of
  positive width and height is created, and there are no edges to coincide.
\<close>

theorem createTile_crs84_without_sector:
  "createConfigurationFromLayer (\<lambda>u. u) (Some exCrs84Caps) = Inr exCrs84Config
   \<and> WmtsLayer (Some exCrs84Config) = Inr exCrs84Layer
   \<and> isOGCCrs84 (supportedCRS (tileMatrixSet exCrs84Layer))
   \<and> \<not> isEpsg4326Crs (supportedCRS (tileMatrixSet exCrs84Layer))
   \<and> \<not> isEpsg3857Crs (supportedCRS (tileMatrixSet exCrs84Layer))
   \<and> layerSector exCrs84Layer = None
   \<and> 0 < matrixWidth (exCrs84Level 1 4 2) \<and> 0 < matrixHeight (exCrs84Level 1 4 2)
   \<and> createTile exX exCrs84Layer (exCrs84Level 1 4 2) 0 0 = Inl TypeError
   \<and> createTile exX exCrs84Layer (exCrs84Level 1 4 2) 0 1 = Inl TypeError
   \<and> createTile exX exCrs84Layer (exCrs84Level 1 4 2) 1 0 = Inl TypeError"
proof -
  have cfg: "createConfigurationFromLayer (\<lambda>u. u) (Some exCrs84Caps) = Inr exCrs84Config"
    by code_simp
  have layer: "WmtsLayer (Some exCrs84Config) = Inr exCrs84Layer"
    by (simp add: WmtsLayer_def exCrs84Config_def exCrs84Layer_def exCrs84Set_def truthy_def
        strOf_def exCrs84_branch)
  have crs: "supportedCRS (tileMatrixSet exCrs84Layer) = ''urn:ogc:def:crs:OGC:1.3:CRS84''"
    and sec: "layerSector exCrs84Layer = None"
    by (simp_all add: exCrs84Layer_def exCrs84Set_def)
  have dims: "0 < matrixWidth (exCrs84Level 1 4 2)" "0 < matrixHeight (exCrs84Level 1 4 2)"
    by (simp_all add: exCrs84Level_def exLevel_def)
  have thrown: "createTile exX exCrs84Layer tm r c = Inl TypeError" for tm r c
    by (simp add: createTile_def createTileCrs84_def crs sec exCrs84_branch)
  from cfg layer sec dims thrown show ?thesis
    unfolding crs using exCrs84_branch by simp
qed

section \<open>Properties of the retrieval of tile images\<close>

lemma arrayIndexOfFrom_notin: "a \<notin> set xs \<Longrightarrow> arrayIndexOfFrom xs a i = - 1"
  by (induction xs arbitrary: i) auto

lemma arrayIndexOfFrom_in:
  "a \<in> set xs \<Longrightarrow>
     \<exists>k. arrayIndexOfFrom xs a i = int (i + k) \<and> k < length xs \<and> xs ! k = a
         \<and> a \<notin> set (take k xs)"
proof (induction xs arbitrary: i)
  case Nil
  then show ?case by simp
next
  case (Cons x xs)
  show ?case
  proof (cases "x = a")
    case True
    then show ?thesis by (intro exI[of _ 0]) simp
  next
    case False
    with Cons.prems have "a \<in> set xs" by simp
    from Cons.IH[OF this, of "Suc i"] obtain k where
      k: "arrayIndexOfFrom xs a (Suc i) = int (Suc i + k)" "k < length xs" "xs ! k = a"
         "a \<notin> set (take k xs)"
      by blast
    with False show ?thesis by (intro exI[of _ "Suc k"]) simp
  qed
qed

lemma arrayIndexOf_negative: "arrayIndexOf xs a < 0 \<longleftrightarrow> a \<notin> set xs"
proof (cases "a \<in> set xs")
  case True
  from arrayIndexOfFrom_in[OF this, of 0] show ?thesis
    using True by (auto simp: arrayIndexOf_def)
next
  case False
  then show ?thesis by (simp add: arrayIndexOf_def arrayIndexOfFrom_notin)
qed

lemma take_drop_remove1:
  "k < length xs \<Longrightarrow> xs ! k = a \<Longrightarrow> a \<notin> set (take k xs)
     \<Longrightarrow> take k xs @ drop (Suc k) xs = remove1 a xs"
proof (induction xs arbitrary: k)
  case Nil
  then show ?case by simp
next
  case (Cons x xs)
  then show ?case by (cases k) auto
qed

lemma removeFromCurrentRetrievals_remove1:
  "removeFromCurrentRetrievals path s = s\<lparr>currentRetrievals := remove1 path (currentRetrievals s)\<rparr>"
proof (cases "path \<in> set (currentRetrievals s)")
  case True
  from arrayIndexOfFrom_in[OF this, of 0] obtain k where
    k: "arrayIndexOf (currentRetrievals s) path = int k" "k < length (currentRetrievals s)"
       "currentRetrievals s ! k = path" "path \<notin> set (take k (currentRetrievals s))"
    by (auto simp: arrayIndexOf_def)
  then show ?thesis
    by (simp add: removeFromCurrentRetrievals_def Let_def splice1_def take_drop_remove1)
next
  case False
  then have "arrayIndexOf (currentRetrievals s) path = - 1"
    by (simp add: arrayIndexOf_def arrayIndexOfFrom_notin)
  with False show ?thesis
    by (simp add: removeFromCurrentRetrievals_def Let_def remove1_idem)
qed

lemma retrieveTileImage_distinct:
  "distinct (currentRetrievals s) \<Longrightarrow> distinct (currentRetrievals (retrieveTileImage X L tile s))"
  by (auto simp: retrieveTileImage_def Let_def arrayIndexOf_negative)

lemma onload_retrievals:
  "currentRetrievals (onload X L tile img s) = remove1 (imagePath tile) (currentRetrievals s)"
  by (simp add: onload_def Let_def removeFromCurrentRetrievals_remove1 putResource_def
      unmarkResourceAbsent_def split: option.splits)

lemma onerror_retrievals:
  "currentRetrievals (onerror tile s) = remove1 (imagePath tile) (currentRetrievals s)"
  by (simp add: onerror_def removeFromCurrentRetrievals_remove1 markResourceAbsent_def)

lemma retrievalStep_distinct:
  "distinct (currentRetrievals s) \<Longrightarrow> distinct (currentRetrievals (retrievalStep X L ev s))"
  by (cases ev) (simp_all add: retrieveTileImage_distinct onload_retrievals onerror_retrievals)

lemma runRetrievals_distinct:
  "distinct (currentRetrievals s) \<Longrightarrow> distinct (currentRetrievals (runRetrievals X L evs s))"
  unfolding runRetrievals_def
  by (induction evs arbitrary: s) (simp_all add: retrievalStep_distinct)

lemma retrieveTileImage_noop:
  "imagePath tile \<in> set (currentRetrievals s) \<or> isResourceAbsent s (imagePath tile)
     \<Longrightarrow> retrieveTileImage X L tile s = s"
  by (auto simp: retrieveTileImage_def arrayIndexOf_negative)

lemma retrieveTileImage_idem:
  "retrieveTileImage X L tile (retrieveTileImage X L tile s) = retrieveTileImage X L tile s"
  by (auto simp: retrieveTileImage_def Let_def arrayIndexOf_negative isResourceAbsent_def)

text \<open>
  Claim C5. From the state the constructor leaves, and from any state whose
  \<^verbatim>\<open>currentRetrievals\<close> has no path twice, every sequence of requests, completions and
  failures leaves a list with at most one entry for each image path.
  \<^verbatim>\<open>retrieveTileImage\<close> changes nothing when the tile's path is in the list or is marked
  absent; a second call for the same tile changes nothing after the first, so it starts no
  second fetch; each callback removes one occurrence of the path, after which the path is
  not in the list.
\<close>

theorem currentRetrievals_one_entry_per_path:
  "distinct (currentRetrievals (runRetrievals X L evs initialState))
   \<and> (distinct (currentRetrievals s) \<longrightarrow> distinct (currentRetrievals (runRetrievals X L evs s)))
   \<and> (imagePath tile \<in> set (currentRetrievals s) \<or> isResourceAbsent s (imagePath tile)
        \<longrightarrow> retrieveTileImage X L tile s = s)
   \<and> retrieveTileImage X L tile (retrieveTileImage X L tile s) = retrieveTileImage X L tile s
   \<and> currentRetrievals (onload X L tile img s) = remove1 (imagePath tile) (currentRetrievals s)
   \<and> currentRetrievals (onerror tile s) = remove1 (imagePath tile) (currentRetrievals s)
   \<and> (distinct (currentRetrievals s) \<longrightarrow>
        imagePath tile \<notin> set (currentRetrievals (onload X L tile img s))
        \<and> imagePath tile \<notin> set (currentRetrievals (onerror tile s)))"
proof -
  have "distinct (currentRetrievals initialState)"
    by (simp add: initialState_def)
  then have "distinct (currentRetrievals (runRetrievals X L evs initialState))"
    by (rule runRetrievals_distinct)
  then show ?thesis
    using runRetrievals_distinct[of s X L evs] retrieveTileImage_noop[of tile s X L]
      retrieveTileImage_idem[of X L tile s] onload_retrievals[of X L tile img s]
      onerror_retrievals[of tile s]
    by simp
qed

lemma createTile_supported:
  "createTile X L tm r c = Inr (Some tile) \<Longrightarrow> supportedCrs (supportedCRS (tileMatrixSet L))"
  by (auto simp: createTile_def supportedCrs_def split: if_splits)

text \<open>
  Claim C9. For a retrieval of a tile that the layer created: the success callback puts
  the texture (the unprojected one on the EPSG:3857 branch, the image's own otherwise)
  into the GPU resource cache under the tile's image path with the texture's size, removes
  the path from \<^verbatim>\<open>currentRetrievals\<close>, clears the absent mark of the path, dispatches
  one redraw event and sets \<^verbatim>\<open>currentTilesInvalid\<close>; the failure callback removes the
  path from \<^verbatim>\<open>currentRetrievals\<close> and marks it absent, and changes nothing else: in
  particular it starts no fetch.
\<close>

theorem retrieval_callbacks:
  assumes "createTile X L tm r c = Inr (Some tile)"
  shows "(\<exists>t. createTexture X L tile img = Some t
           \<and> t = (if \<not> isEpsg4326Crs (supportedCRS (tileMatrixSet L))
                      \<and> isEpsg3857Crs (supportedCRS (tileMatrixSet L))
                   then createTexture3857 X tile img else Texture X img)
           \<and> onload X L tile img s =
               s\<lparr>currentRetrievals := remove1 (imagePath tile) (currentRetrievals s),
                  gpuResourceCache := (gpuResourceCache s)(imagePath tile \<mapsto> (t, tex_size t)),
                  currentTilesInvalid := True,
                  absentResourceList := absentResourceList s - {imagePath tile},
                  redrawEvents := Suc (redrawEvents s)\<rparr>)
       \<and> onerror tile s =
           s\<lparr>currentRetrievals := remove1 (imagePath tile) (currentRetrievals s),
              absentResourceList := insert (imagePath tile) (absentResourceList s)\<rparr>"
proof -
  from createTile_supported[OF assms]
  have sup: "supportedCrs (supportedCRS (tileMatrixSet L))" .
  define t where "t = (if \<not> isEpsg4326Crs (supportedCRS (tileMatrixSet L))
                      \<and> isEpsg3857Crs (supportedCRS (tileMatrixSet L))
                   then createTexture3857 X tile img else Texture X img)"
  have ct: "createTexture X L tile img = Some t"
    using sup by (auto simp: createTexture_def supportedCrs_def t_def)
  have ol: "onload X L tile img s =
               s\<lparr>currentRetrievals := remove1 (imagePath tile) (currentRetrievals s),
                  gpuResourceCache := (gpuResourceCache s)(imagePath tile \<mapsto> (t, tex_size t)),
                  currentTilesInvalid := True,
                  absentResourceList := absentResourceList s - {imagePath tile},
                  redrawEvents := Suc (redrawEvents s)\<rparr>"
    by (simp add: onload_def ct Let_def removeFromCurrentRetrievals_remove1 putResource_def
        unmarkResourceAbsent_def)
  have oe: "onerror tile s =
           s\<lparr>currentRetrievals := remove1 (imagePath tile) (currentRetrievals s),
              absentResourceList := insert (imagePath tile) (absentResourceList s)\<rparr>"
    by (simp add: onerror_def removeFromCurrentRetrievals_remove1 markResourceAbsent_def)
  show ?thesis
    using ct ol oe unfolding t_def by blast
qed


lemma exTopTile_created:
  "createTile exX (exLayer exTwoLevels) (exLevel 0 2 1) 0 0 = Inr (Some exTopTile)"
proof -
  have "isEpsg4326Crs (supportedCRS (tileMatrixSet (exLayer exTwoLevels)))"
    by code_simp
  then show ?thesis
    by (simp add: createTile_def createTile4326_def exTopTile_def exLayer_def exLevel_def
        deltaLatitude_def deltaLongitude_def Sector_def Let_def)
qed

lemma exInFlight_retrievals:
  "currentRetrievals exInFlight = [imagePath exTopTile]"
  "length (imageRequests exInFlight) = 1"
  "absentResourceList exInFlight = {}"
  by (code_simp)+

text \<open>
  An instance for claim C5: the state in which the retrieval of the top tile is in flight.
\<close>

theorem currentRetrievals_one_entry_per_path_witness:
  "distinct (currentRetrievals exInFlight)
   \<and> imagePath exTopTile \<in> set (currentRetrievals exInFlight)
   \<and> retrieveTileImage exX (exLayer exTwoLevels) exTopTile exInFlight = exInFlight
   \<and> distinct (currentRetrievals (runRetrievals exX (exLayer exTwoLevels)
        [Request exTopTile, Failed exTopTile, Request exTopTile] exInFlight))
   \<and> imagePath exTopTile \<notin> set (currentRetrievals (onload exX (exLayer exTwoLevels) exTopTile exImage exInFlight))
   \<and> imagePath exTopTile \<notin> set (currentRetrievals (onerror exTopTile exInFlight))"
proof -
  have h1: "distinct (currentRetrievals exInFlight)"
    by (simp add: exInFlight_retrievals)
  have h2: "imagePath exTopTile \<in> set (currentRetrievals exInFlight)"
    by (simp add: exInFlight_retrievals)
  from currentRetrievals_one_entry_per_path[of exX "exLayer exTwoLevels"
      "[Request exTopTile, Failed exTopTile, Request exTopTile]" exInFlight exTopTile exImage]
    h1 h2
  show ?thesis by blast
qed

text \<open>
  An instance for claim C9: the retrieval of the top tile completes, or fails.
\<close>

theorem retrieval_callbacks_witness:
  "createTile exX (exLayer exTwoLevels) (exLevel 0 2 1) 0 0 = Inr (Some exTopTile)
   \<and> gpuResourceCache (onload exX (exLayer exTwoLevels) exTopTile exImage exInFlight) (imagePath exTopTile)
       = Some (Texture exX exImage, 8)
   \<and> currentRetrievals (onload exX (exLayer exTwoLevels) exTopTile exImage exInFlight) = []
   \<and> redrawEvents (onload exX (exLayer exTwoLevels) exTopTile exImage exInFlight) = 1
   \<and> currentRetrievals (onerror exTopTile exInFlight) = []
   \<and> absentResourceList (onerror exTopTile exInFlight) = {imagePath exTopTile}
   \<and> imageRequests (onerror exTopTile exInFlight) = imageRequests exInFlight"
proof -
  let ?L = "exLayer exTwoLevels"
  have crs: "isEpsg4326Crs (supportedCRS (tileMatrixSet ?L))"
    by code_simp
  have sz: "tex_size (Texture exX exImage) = 8"
    by (simp add: Texture_def exX_def exImage_def)
  from retrieval_callbacks[OF exTopTile_created, of exImage exInFlight]
  have ol: "onload exX ?L exTopTile exImage exInFlight =
               exInFlight\<lparr>currentRetrievals := remove1 (imagePath exTopTile) (currentRetrievals exInFlight),
                  gpuResourceCache := (gpuResourceCache exInFlight)
                    (imagePath exTopTile \<mapsto> (Texture exX exImage, tex_size (Texture exX exImage))),
                  currentTilesInvalid := True,
                  absentResourceList := absentResourceList exInFlight - {imagePath exTopTile},
                  redrawEvents := Suc (redrawEvents exInFlight)\<rparr>"
    and oe: "onerror exTopTile exInFlight =
           exInFlight\<lparr>currentRetrievals := remove1 (imagePath exTopTile) (currentRetrievals exInFlight),
              absentResourceList := insert (imagePath exTopTile) (absentResourceList exInFlight)\<rparr>"
    using crs by auto
  have r0: "redrawEvents exInFlight = 0"
    by code_simp
  show ?thesis
    unfolding ol oe using exTopTile_created sz r0 by (simp add: exInFlight_retrievals)
qed

section \<open>Properties of the traversal\<close>

lemma retrieveTileImage_ancestor:
  "currentAncestorTile (retrieveTileImage X L tile s) = currentAncestorTile s"
  by (simp add: retrieveTileImage_def Let_def)

lemma addTile_ancestor: "currentAncestorTile (addTile X L tile s) = currentAncestorTile s"
  by (simp add: addTile_def Let_def retrieveTileImage_ancestor split: option.splits)

text \<open>A traversal that ends within a depth bound has the same result with a larger one.\<close>

lemma addSubTiles_more_depth:
  assumes each: "\<And>t s r. addTileOrDescendants X L n t s = Some r
      \<Longrightarrow> addTileOrDescendants X L (Suc n) t s = Some r"
  shows "addSubTiles X L n cs s = Some r \<Longrightarrow> addSubTiles X L (Suc n) cs s = Some r"
proof (induction cs arbitrary: s)
  case Nil
  then show ?case by simp
next
  case (Cons child rest)
  show ?case
  proof (cases child)
    case None
    with Cons.prems show ?thesis by simp
  next
    case (Some ch)
    show ?thesis
    proof (cases "layerSector L")
      case None
      with Cons.prems Some show ?thesis by simp
    next
      case sec: (Some sec)
      show ?thesis
      proof (cases "intersects X sec (sector ch) \<and> isTileVisible X ch")
        case False
        with Cons.prems Some sec have "addSubTiles X L n rest s = Some r" by auto
        from Cons.IH[OF this] False Some sec show ?thesis by auto
      next
        case True
        show ?thesis
        proof (cases "addTileOrDescendants X L n ch s")
          case None
          with Cons.prems Some sec True show ?thesis by simp
        next
          case res: (Some r1)
          obtain c1 s1 where r1: "r1 = (c1, s1)" by (cases r1)
          from each[OF res] have up: "addTileOrDescendants X L (Suc n) ch s = Some (c1, s1)"
            unfolding r1 .
          show ?thesis
          proof (cases c1)
            case Thrown
            with Cons.prems Some sec True res r1 have "r = (Thrown, s1)" by simp
            with Some sec True up Thrown show ?thesis by simp
          next
            case Returned
            with Cons.prems Some sec True res r1 have "addSubTiles X L n rest s1 = Some r" by simp
            from Cons.IH[OF this] Some sec True up Returned show ?thesis by simp
          qed
        qed
      qed
    qed
  qed
qed

lemma addTileOrDescendants_more_depth:
  "addTileOrDescendants X L n t s = Some r \<Longrightarrow> addTileOrDescendants X L (Suc n) t s = Some r"
proof (induction n arbitrary: t s r)
  case 0
  then show ?case by simp
next
  case (Suc n)
  show ?case
  proof (cases "tileMeetsRenderingCriteria X L t")
    case True
    with Suc.prems show ?thesis by simp
  next
    case False
    define b where "b = (isTileTextureInMemory s t \<or> levelNumber (tileMatrix t) = 0)"
    define anc where "anc = (if b then currentAncestorTile s else None)"
    define s1 where "s1 = (if b then s\<lparr>currentAncestorTile := Some t\<rparr> else s)"
    define nxt where
      "nxt = arrayGet (tms_tileMatrix (tileMatrixSet L)) (levelNumber (tileMatrix t) + 1)"
    have unf: "addTileOrDescendants X L (Suc m) t s =
        (case subdivideToCache X nxt t of
           None \<Rightarrow> Some (Thrown, restoreAncestor anc s1)
         | Some subTiles \<Rightarrow>
             (case addSubTiles X L m subTiles s1 of
                None \<Rightarrow> None
              | Some (c, s2) \<Rightarrow> Some (c, restoreAncestor anc s2)))" for m
      unfolding b_def anc_def s1_def nxt_def
      by (simp only: addTileOrDescendants.simps False if_False Let_def)
    show ?thesis
    proof (cases "subdivideToCache X nxt t")
      case None
      with Suc.prems show ?thesis unfolding unf by simp
    next
      case (Some cs)
      with Suc.prems obtain c2 s2 where
        sub: "addSubTiles X L n cs s1 = Some (c2, s2)" and r: "r = (c2, restoreAncestor anc s2)"
        unfolding unf by (auto split: option.splits)
      from addSubTiles_more_depth[of X L n cs s1, OF Suc.IH sub]
      have "addSubTiles X L (Suc n) cs s1 = Some (c2, s2)" .
      with Some r show ?thesis unfolding unf by simp
    qed
  qed
qed

lemma addSubTiles_keeps_ancestor:
  assumes each: "\<And>tile s c s'. addTileOrDescendants X L n tile s = Some (c, s')
      \<Longrightarrow> currentAncestorTile s \<noteq> None \<Longrightarrow> currentAncestorTile s' = currentAncestorTile s"
  shows "addSubTiles X L n subTiles s = Some (c, s') \<Longrightarrow> currentAncestorTile s \<noteq> None
      \<Longrightarrow> currentAncestorTile s' = currentAncestorTile s"
proof (induction subTiles arbitrary: s)
  case Nil
  then show ?case by simp
next
  case (Cons child rest)
  show ?case
  proof (cases child)
    case None
    with Cons.prems show ?thesis by simp
  next
    case (Some ch)
    show ?thesis
    proof (cases "layerSector L")
      case None
      with Cons.prems Some show ?thesis by simp
    next
      case (Some sec)
      show ?thesis
      proof (cases "intersects X sec (sector ch) \<and> isTileVisible X ch")
        case False
        with Cons.prems \<open>child = Some ch\<close> Some have "addSubTiles X L n rest s = Some (c, s')"
          by auto
        from Cons.IH[OF this Cons.prems(2)] show ?thesis .
      next
        case True
        show ?thesis
        proof (cases "addTileOrDescendants X L n ch s")
          case None
          with Cons.prems \<open>child = Some ch\<close> Some True show ?thesis by simp
        next
          case (Some r)
          obtain c1 s1 where r: "r = (c1, s1)" by (cases r)
          from each[OF Some[unfolded r] Cons.prems(2)]
          have keep: "currentAncestorTile s1 = currentAncestorTile s" .
          show ?thesis
          proof (cases c1)
            case Thrown
            with Cons.prems \<open>child = Some ch\<close> \<open>layerSector L = Some sec\<close> True Some r
            have "s' = s1" by simp
            with keep show ?thesis by simp
          next
            case Returned
            with Cons.prems \<open>child = Some ch\<close> \<open>layerSector L = Some sec\<close> True Some r
            have "addSubTiles X L n rest s1 = Some (c, s')" by simp
            from Cons.IH[OF this] keep Cons.prems(2) show ?thesis by simp
          qed
        qed
      qed
    qed
  qed
qed

text \<open>
  Claim C2, as the code has it. A call of \<^verbatim>\<open>addTileOrDescendants\<close> that is entered
  with an ancestor-of-record (\<^verbatim>\<open>currentAncestorTile\<close> not null) leaves the field with
  the value it had on entry, at every depth, for every tile and state, whether the call
  returns or an exception leaves it. Nothing is stated for an entry value of null.
\<close>

theorem addTileOrDescendants_restores_ancestor:
  "addTileOrDescendants X L n tile s = Some (c, s') \<Longrightarrow> currentAncestorTile s \<noteq> None
     \<Longrightarrow> currentAncestorTile s' = currentAncestorTile s"
proof (induction n arbitrary: tile s c s')
  case 0
  then show ?case by simp
next
  case (Suc n)
  note res = Suc.prems(1) and nn = Suc.prems(2)
  show ?case
  proof (cases "tileMeetsRenderingCriteria X L tile")
    case True
    with res show ?thesis by (auto simp: addTile_ancestor)
  next
    case False
    define b where "b = (isTileTextureInMemory s tile \<or> levelNumber (tileMatrix tile) = 0)"
    define anc where "anc = (if b then currentAncestorTile s else None)"
    define s1 where "s1 = (if b then s\<lparr>currentAncestorTile := Some tile\<rparr> else s)"
    define nxt where
      "nxt = arrayGet (tms_tileMatrix (tileMatrixSet L)) (levelNumber (tileMatrix tile) + 1)"
    have s1nn: "currentAncestorTile s1 \<noteq> None"
      using nn by (simp add: s1_def)
    have fin: "currentAncestorTile (restoreAncestor anc t) = currentAncestorTile s"
      if "currentAncestorTile t = currentAncestorTile s1" for t
      using that nn by (auto simp: anc_def s1_def restoreAncestor_def split: option.splits)
    have unf: "addTileOrDescendants X L (Suc n) tile s =
        (case subdivideToCache X nxt tile of
           None \<Rightarrow> Some (Thrown, restoreAncestor anc s1)
         | Some subTiles \<Rightarrow>
             (case addSubTiles X L n subTiles s1 of
                None \<Rightarrow> None
              | Some (c, s2) \<Rightarrow> Some (c, restoreAncestor anc s2)))"
      unfolding b_def anc_def s1_def nxt_def
      by (simp only: addTileOrDescendants.simps False if_False Let_def)
    show ?thesis
    proof (cases "subdivideToCache X nxt tile")
      case None
      with res unf have "s' = restoreAncestor anc s1" by simp
      then show ?thesis using fin by simp
    next
      case (Some subTiles)
      with res unf obtain s2 where
        sub: "addSubTiles X L n subTiles s1 = Some (c, s2)" and s': "s' = restoreAncestor anc s2"
        by (auto split: option.splits)
      have "currentAncestorTile s2 = currentAncestorTile s1"
        using addSubTiles_keeps_ancestor[OF Suc.IH sub s1nn] by simp
      then show ?thesis using fin s' by simp
    qed
  qed
qed

text \<open>
  Claim C2 as stated fails where the entry value is null: the traversal of a level 0
  tile that must subdivide makes the tile the ancestor-of-record, the \<^verbatim>\<open>finally\<close> block
  restores only a saved value that is not null, and the call returns with the field
  holding the tile.
\<close>

theorem addTileOrDescendants_null_entry_not_restored:
  "currentAncestorTile initialState = None
   \<and> traversalResult (addTileOrDescendants (exQuad exTwoLevels) (exLayer exTwoLevels) 2 exTopTile initialState)
       = Some (Returned, [], Some exTopTile)"
  by code_simp

lemma crs_ex: "isEpsg4326Crs ''EPSG:4326''"
  by code_simp

lemma upt_ex: "[0..<nat 2] = [0, 1]" "[0..<nat 1] = [0]"
  by code_simp+

lemma num_ex: "numberToString 0 = ''0''" "numberToString 1 = ''1''" "numberToString 2 = ''2''"
  "numberToString 3 = ''3''"
  by code_simp+

lemmas ex_defs = exLayer_def exTwoLevels_def exSet_def exLevel_def exQuad_def exX_def
  exSubdivide_def exTopTile_def exImage_def initialState_def

lemmas run_defs = assembleTiles_def createTopLevelTiles_def createTile_def createTile4326_def
  makeTile_def isTileVisible_def tileMeetsRenderingCriteria_def addTile_def retrieveTileImage_def
  resourceUrlForTile_def isResourceAbsent_def resourceForKey_def containsResource_def
  isTileTextureInMemory_def restoreAncestor_def arrayGet_def arrayIndexOf_def truthy_def strOf_def
  Sector_def deltaLatitude_def deltaLongitude_def Let_def traversalResult_def Texture_def
  isTextureExpired_def

text \<open>
  Claim C4 as stated fails: the top tile has its texture in the cache and must subdivide;
  its two children in view are accepted without a texture of their own, and each of them
  pushes the top tile, which is then twice in the render list.
\<close>

theorem assembleTiles_repeats_ancestor:
  "traversalResult (assembleTiles (exQuad exTwoLevels) (exLayer exTwoLevels) 2 exTopCached)
     = Some (Returned, [exTopTile, exTopTile], None)
   \<and> \<not> distinct [exTopTile, exTopTile]"
  by (simp add: run_defs ex_defs exTopCached_def crs_ex upt_ex num_ex numeral_2_eq_2)

lemma mid_run:
  "traversalResult (addTileOrDescendants (exQuad exThreeLevels) (exLayer exThreeLevels) 2 exMidTile exMidEntry)
     = Some (Returned, [exMidTile, exMidTile, exMidTile, exMidTile], Some exTopTile)"
  by (simp add: run_defs ex_defs exThreeLevels_def exMidEntry_def exMidTile_def crs_ex upt_ex num_ex numeral_2_eq_2)

text \<open>
  An instance for claim C2: the level 1 tile becomes the ancestor-of-record of its four
  children, and the top tile is the ancestor-of-record again when the call returns.
\<close>

theorem addTileOrDescendants_restores_ancestor_witness:
  "currentAncestorTile exMidEntry \<noteq> None
   \<and> traversalResult
        (addTileOrDescendants (exQuad exThreeLevels) (exLayer exThreeLevels) 2 exMidTile exMidEntry)
       = Some (Returned, [exMidTile, exMidTile, exMidTile, exMidTile], currentAncestorTile exMidEntry)"
proof -
  let ?r = "addTileOrDescendants (exQuad exThreeLevels) (exLayer exThreeLevels) 2 exMidTile exMidEntry"
  have nn: "currentAncestorTile exMidEntry \<noteq> None"
    by (simp add: exMidEntry_def)
  from mid_run obtain c s' where r: "?r = Some (c, s')"
    by (auto simp: traversalResult_def)
  from addTileOrDescendants_restores_ancestor[OF r nn]
  have "currentAncestorTile s' = currentAncestorTile exMidEntry" .
  with mid_run r nn show ?thesis
    by (simp add: traversalResult_def)
qed

lemma retrieveTileImage_tiles:
  "currentTiles (retrieveTileImage X L tile s) = currentTiles s"
  by (simp add: retrieveTileImage_def Let_def)

lemma retrieveTileImage_cache:
  "gpuResourceCache (retrieveTileImage X L tile s) = gpuResourceCache s"
  by (simp add: retrieveTileImage_def Let_def)

lemma addTile_tiles:
  "currentTiles (addTile X L tile s) =
     currentTiles s @
       (if containsResource s (imagePath tile) then [tile]
        else case currentAncestorTile s of
               None \<Rightarrow> []
             | Some a \<Rightarrow> if containsResource s (imagePath a) then [a] else [])"
  by (auto simp: addTile_def Let_def resourceForKey_def containsResource_def
      isTileTextureInMemory_def retrieveTileImage_tiles retrieveTileImage_cache
      retrieveTileImage_ancestor split: option.splits)

lemma set_definedTiles: "set (definedTiles xs) = {t. Some t \<in> set xs}"
  by (induction xs rule: definedTiles.induct) auto

lemma reachable_top: "t \<in> set (definedTiles tops) \<Longrightarrow> t \<in> reachable X L tops"
  by (auto simp: reachable_def)

lemma reachable_child:
  "t \<in> reachable X L tops \<Longrightarrow> (t, c) \<in> childRel X L \<Longrightarrow> c \<in> reachable X L tops"
  by (auto simp: reachable_def intro: rtrancl_into_rtrancl)

lemma reachable_desc:
  "(t, d) \<in> (childRel X L)\<^sup>* \<Longrightarrow> t \<in> reachable X L tops \<Longrightarrow> d \<in> reachable X L tops"
  by (induction rule: rtrancl_induct) (auto intro: reachable_child)

lemma level_desc:
  assumes qt: "quadtree X L tops"
  shows "(t, d) \<in> (childRel X L)\<^sup>* \<Longrightarrow> t \<in> reachable X L tops \<Longrightarrow>
     levelNumber (tileMatrix t) \<le> levelNumber (tileMatrix d)
     \<and> (levelNumber (tileMatrix d) = levelNumber (tileMatrix t) \<longrightarrow> d = t)"
proof (induction rule: rtrancl_induct)
  case base
  then show ?case by simp
next
  case (step y z)
  from step.hyps(1) step.prems have y: "y \<in> reachable X L tops"
    by (rule reachable_desc)
  with qt step.hyps(2) have "levelNumber (tileMatrix z) = levelNumber (tileMatrix y) + 1"
    by (auto simp: quadtree_def)
  with step.IH[OF step.prems] show ?case by auto
qed

lemma subtrees_disjoint:
  assumes qt: "quadtree X L tops"
    and c1: "c1 \<in> reachable X L tops" and c2: "c2 \<in> reachable X L tops"
    and lv: "levelNumber (tileMatrix c1) = levelNumber (tileMatrix c2)" and ne: "c1 \<noteq> c2"
  shows "(c1, x) \<in> (childRel X L)\<^sup>* \<Longrightarrow> (c2, x) \<notin> (childRel X L)\<^sup>*"
proof (induction rule: rtrancl_induct)
  case base
  show ?case
  proof
    assume "(c2, c1) \<in> (childRel X L)\<^sup>*"
    from level_desc[OF qt this c2] lv ne show False by auto
  qed
next
  case (step y z)
  from step.hyps(1) c1 have y: "y \<in> reachable X L tops"
    by (rule reachable_desc)
  from qt y step.hyps(2) have lz: "levelNumber (tileMatrix z) = levelNumber (tileMatrix y) + 1"
    by (auto simp: quadtree_def)
  from level_desc[OF qt step.hyps(1) c1] have ly: "levelNumber (tileMatrix c1) \<le> levelNumber (tileMatrix y)"
    by simp
  show ?case
  proof
    assume "(c2, z) \<in> (childRel X L)\<^sup>*"
    then show False
    proof (cases rule: rtranclE)
      case base
      with lz ly lv show False by simp
    next
      case (step y')
      from step(1) c2 have y': "y' \<in> reachable X L tops"
        by (rule reachable_desc)
      from qt y \<open>(y, z) \<in> childRel X L\<close> y' step(2) have "y' = y"
        by (auto simp: quadtree_def)
      with step(1) \<open>(c2, y) \<notin> (childRel X L)\<^sup>*\<close> show False by simp
    qed
  qed
qed

lemma pushedWithin_refl: "pushedWithin P A s s"
  by (simp add: pushedWithin_def)

lemma pushedWithin_mono: "pushedWithin P A s s' \<Longrightarrow> A \<subseteq> B \<Longrightarrow> pushedWithin P B s s'"
  by (auto simp: pushedWithin_def)

lemma pushedWithin_eq_tiles:
  "pushedWithin P A s s' \<Longrightarrow> currentTiles t = currentTiles s \<Longrightarrow> currentTiles t' = currentTiles s'
     \<Longrightarrow> pushedWithin P A t t'"
  by (auto simp: pushedWithin_def)

lemma pushedWithin_trans:
  assumes "pushedWithin P A s s1" and "pushedWithin P B s1 s2" and "A \<inter> B = {}"
  shows "pushedWithin P (A \<union> B) s s2"
proof -
  from assms(1) obtain n1 where n1: "currentTiles s1 = currentTiles s @ n1" "distinct (filter P n1)"
    "set (filter P n1) \<subseteq> A"
    by (auto simp: pushedWithin_def)
  from assms(2) obtain n2 where n2: "currentTiles s2 = currentTiles s1 @ n2" "distinct (filter P n2)"
    "set (filter P n2) \<subseteq> B"
    by (auto simp: pushedWithin_def)
  have "currentTiles s2 = currentTiles s @ (n1 @ n2)"
    using n1(1) n2(1) by simp
  moreover have "distinct (filter P (n1 @ n2))"
    using n1(2,3) n2(2,3) assms(3) by auto
  moreover have "set (filter P (n1 @ n2)) \<subseteq> A \<union> B"
    using n1(3) n2(3) by auto
  ultimately show ?thesis
    unfolding pushedWithin_def by blast
qed

lemma addTile_pushed:
  assumes "P tile" and "ancestorSubdivided P s"
  shows "pushedWithin P {tile} s (addTile X L tile s)
         \<and> ancestorSubdivided P (addTile X L tile s)"
proof -
  have "ancestorSubdivided P (addTile X L tile s)"
    using assms(2) by (simp add: ancestorSubdivided_def addTile_ancestor)
  moreover have "pushedWithin P {tile} s (addTile X L tile s)"
    unfolding pushedWithin_def using assms
    by (auto simp: addTile_tiles ancestorSubdivided_def split: option.splits)
  ultimately show ?thesis by simp
qed

lemma restoreAncestor_tiles: "currentTiles (restoreAncestor a s) = currentTiles s"
  by (simp add: restoreAncestor_def split: option.splits)

lemma child_in_rel:
  "subdivideToCache X (arrayGet (tms_tileMatrix (tileMatrixSet L)) (levelNumber (tileMatrix t) + 1)) t
     = Some cs \<Longrightarrow> c \<in> set (definedTiles cs) \<Longrightarrow> (t, c) \<in> childRel X L"
  by (simp add: childRel_def subTilesOf_def)

lemma addSubTiles_pushed:
  assumes qt: "quadtree X L tops"
    and each: "\<And>t s c s'. addTileOrDescendants X L n t s = Some (c, s')
      \<Longrightarrow> t \<in> reachable X L tops \<Longrightarrow> ancestorSubdivided P s
      \<Longrightarrow> pushedWithin P ((childRel X L)\<^sup>* `` {t}) s s' \<and> ancestorSubdivided P s'"
  shows "addSubTiles X L n cs s = Some (c, s')
    \<Longrightarrow> set (definedTiles cs) \<subseteq> reachable X L tops
    \<Longrightarrow> distinct (definedTiles cs)
    \<Longrightarrow> (\<forall>a \<in> set (definedTiles cs). \<forall>b \<in> set (definedTiles cs).
          levelNumber (tileMatrix a) = levelNumber (tileMatrix b))
    \<Longrightarrow> ancestorSubdivided P s
    \<Longrightarrow> pushedWithin P ((childRel X L)\<^sup>* `` set (definedTiles cs)) s s'
        \<and> ancestorSubdivided P s'"
proof (induction cs arbitrary: s)
  case Nil
  then show ?case by (simp add: pushedWithin_refl)
next
  case (Cons child rest)
  show ?case
  proof (cases child)
    case None
    with Cons.prems show ?thesis by (simp add: pushedWithin_refl)
  next
    case (Some ch)
    note ch = this
    have dt: "definedTiles (child # rest) = ch # definedTiles rest"
      using ch by simp
    have rest_reach: "set (definedTiles rest) \<subseteq> reachable X L tops"
      and ch_reach: "ch \<in> reachable X L tops"
      using Cons.prems(2) unfolding dt by simp_all
    have rest_dist: "distinct (definedTiles rest)"
      and ch_notin: "ch \<notin> set (definedTiles rest)"
      using Cons.prems(3) unfolding dt by simp_all
    have in_rest: "a \<in> set (definedTiles (child # rest))" if "a \<in> set (definedTiles rest)" for a
      using that unfolding dt by simp
    have in_ch: "ch \<in> set (definedTiles (child # rest))"
      unfolding dt by simp
    have rest_lvl: "\<forall>a \<in> set (definedTiles rest). \<forall>b \<in> set (definedTiles rest).
          levelNumber (tileMatrix a) = levelNumber (tileMatrix b)"
      using Cons.prems(4) in_rest by blast
    have ch_lvl: "\<forall>b \<in> set (definedTiles rest). levelNumber (tileMatrix ch) = levelNumber (tileMatrix b)"
      using Cons.prems(4) in_rest in_ch by blast
    have un: "(childRel X L)\<^sup>* `` {ch} \<union> (childRel X L)\<^sup>* `` set (definedTiles rest)
        = (childRel X L)\<^sup>* `` set (definedTiles (child # rest))"
      unfolding dt by (simp add: Image_Un[symmetric])
    have sub: "(childRel X L)\<^sup>* `` set (definedTiles rest)
        \<subseteq> (childRel X L)\<^sup>* `` set (definedTiles (child # rest))"
      and sub1: "(childRel X L)\<^sup>* `` {ch} \<subseteq> (childRel X L)\<^sup>* `` set (definedTiles (child # rest))"
      unfolding un[symmetric] by simp_all
    have disj: "(childRel X L)\<^sup>* `` {ch} \<inter> (childRel X L)\<^sup>* `` set (definedTiles rest) = {}"
    proof (rule ccontr)
      assume "(childRel X L)\<^sup>* `` {ch} \<inter> (childRel X L)\<^sup>* `` set (definedTiles rest) \<noteq> {}"
      then obtain x b where x: "(ch, x) \<in> (childRel X L)\<^sup>*" and b: "b \<in> set (definedTiles rest)"
        and bx: "(b, x) \<in> (childRel X L)\<^sup>*"
        by auto
      from b rest_reach have "b \<in> reachable X L tops" by auto
      moreover from b ch_lvl have "levelNumber (tileMatrix ch) = levelNumber (tileMatrix b)" by blast
      moreover from b ch_notin have "ch \<noteq> b" by auto
      ultimately have "(b, x) \<notin> (childRel X L)\<^sup>*"
        using subtrees_disjoint[OF qt ch_reach _ _ _ x] by blast
      with bx show False by simp
    qed
    show ?thesis
    proof (cases "layerSector L")
      case None
      with Cons.prems ch show ?thesis by (simp add: pushedWithin_refl)
    next
      case (Some sec)
      note sec = this
      show ?thesis
      proof (cases "intersects X sec (sector ch) \<and> isTileVisible X ch")
        case False
        with Cons.prems(1) ch sec have "addSubTiles X L n rest s = Some (c, s')"
          by auto
        from Cons.IH[OF this rest_reach rest_dist rest_lvl Cons.prems(5)]
        show ?thesis using pushedWithin_mono[OF _ sub] by blast
      next
        case True
        show ?thesis
        proof (cases "addTileOrDescendants X L n ch s")
          case None
          with Cons.prems(1) ch sec True show ?thesis by simp
        next
          case (Some r)
          obtain c1 s1 where r: "r = (c1, s1)" by (cases r)
          from each[OF Some[unfolded r] ch_reach Cons.prems(5)]
          have p1: "pushedWithin P ((childRel X L)\<^sup>* `` {ch}) s s1" and a1: "ancestorSubdivided P s1"
            by simp_all
          show ?thesis
          proof (cases c1)
            case Thrown
            with Cons.prems(1) ch sec True Some r have "s' = s1" by simp
            with p1 a1 show ?thesis using pushedWithin_mono[OF _ sub1] by blast
          next
            case Returned
            with Cons.prems(1) ch sec True Some r
            have "addSubTiles X L n rest s1 = Some (c, s')" by simp
            from Cons.IH[OF this rest_reach rest_dist rest_lvl a1]
            have p2: "pushedWithin P ((childRel X L)\<^sup>* `` set (definedTiles rest)) s1 s'"
              and a2: "ancestorSubdivided P s'"
              by simp_all
            from pushedWithin_trans[OF p1 p2 disj] a2 show ?thesis
              unfolding un by simp
          qed
        qed
      qed
    qed
  qed
qed

lemma addTileOrDescendants_pushed:
  assumes qt: "quadtree X L tops"
  shows "addTileOrDescendants X L n t s = Some (c, s')
    \<Longrightarrow> t \<in> reachable X L tops
    \<Longrightarrow> ancestorSubdivided (tileMeetsRenderingCriteria X L) s
    \<Longrightarrow> pushedWithin (tileMeetsRenderingCriteria X L) ((childRel X L)\<^sup>* `` {t}) s s'
        \<and> ancestorSubdivided (tileMeetsRenderingCriteria X L) s'"
proof (induction n arbitrary: t s c s')
  case 0
  then show ?case by simp
next
  case (Suc n)
  let ?P = "tileMeetsRenderingCriteria X L"
  note res = Suc.prems(1) and reach = Suc.prems(2) and inv = Suc.prems(3)
  show ?case
  proof (cases "?P t")
    case True
    with res have s': "s' = addTile X L t s" by simp
    from addTile_pushed[of ?P t s X L, OF True inv]
    show ?thesis
      unfolding s' using pushedWithin_mono[of ?P "{t}" s "addTile X L t s" "(childRel X L)\<^sup>* `` {t}"]
      by auto
  next
    case False
    define b where "b = (isTileTextureInMemory s t \<or> levelNumber (tileMatrix t) = 0)"
    define anc where "anc = (if b then currentAncestorTile s else None)"
    define s1 where "s1 = (if b then s\<lparr>currentAncestorTile := Some t\<rparr> else s)"
    define nxt where
      "nxt = arrayGet (tms_tileMatrix (tileMatrixSet L)) (levelNumber (tileMatrix t) + 1)"
    have unf: "addTileOrDescendants X L (Suc n) t s =
        (case subdivideToCache X nxt t of
           None \<Rightarrow> Some (Thrown, restoreAncestor anc s1)
         | Some subTiles \<Rightarrow>
             (case addSubTiles X L n subTiles s1 of
                None \<Rightarrow> None
              | Some (c, s2) \<Rightarrow> Some (c, restoreAncestor anc s2)))"
      unfolding b_def anc_def s1_def nxt_def
      by (simp only: addTileOrDescendants.simps False if_False Let_def)
    have inv1: "ancestorSubdivided ?P s1"
      using inv False by (simp add: s1_def ancestorSubdivided_def)
    have t1: "currentTiles s1 = currentTiles s"
      by (simp add: s1_def)
    have fin: "ancestorSubdivided ?P (restoreAncestor anc u)" if "ancestorSubdivided ?P u" for u
      using that inv by (auto simp: anc_def restoreAncestor_def ancestorSubdivided_def
          split: option.splits if_splits)
    show ?thesis
    proof (cases "subdivideToCache X nxt t")
      case None
      with res unf have s': "s' = restoreAncestor anc s1" by simp
      have "pushedWithin ?P ((childRel X L)\<^sup>* `` {t}) s s'"
        unfolding s' by (rule pushedWithin_eq_tiles[OF pushedWithin_refl[of _ _ s]])
          (simp_all add: restoreAncestor_tiles t1)
      with fin[OF inv1] s' show ?thesis by simp
    next
      case (Some cs)
      with res unf obtain s2 where
        sub: "addSubTiles X L n cs s1 = Some (c, s2)" and s': "s' = restoreAncestor anc s2"
        by (auto split: option.splits)
      have rel: "(t, ch) \<in> childRel X L" if "ch \<in> set (definedTiles cs)" for ch
        using child_in_rel[OF Some[unfolded nxt_def] that] .
      have cs_reach: "set (definedTiles cs) \<subseteq> reachable X L tops"
        using rel reach by (auto intro: reachable_child)
      have cs_dist: "distinct (definedTiles cs)"
        using qt reach Some by (auto simp: quadtree_def subTilesOf_def nxt_def)
      have "levelNumber (tileMatrix ch) = levelNumber (tileMatrix t) + 1"
        if "ch \<in> set (definedTiles cs)" for ch
        using qt reach rel[OF that] by (auto simp: quadtree_def)
      then have cs_lvl: "\<forall>a \<in> set (definedTiles cs). \<forall>b \<in> set (definedTiles cs).
          levelNumber (tileMatrix a) = levelNumber (tileMatrix b)"
        by simp
      from addSubTiles_pushed[of X L tops n ?P, OF qt Suc.IH sub cs_reach cs_dist cs_lvl inv1]
      have p2: "pushedWithin ?P ((childRel X L)\<^sup>* `` set (definedTiles cs)) s1 s2"
        and a2: "ancestorSubdivided ?P s2"
        by simp_all
      have "(childRel X L)\<^sup>* `` set (definedTiles cs) \<subseteq> (childRel X L)\<^sup>* `` {t}"
        using rel by (auto intro: converse_rtrancl_into_rtrancl)
      from pushedWithin_mono[OF p2 this]
      have "pushedWithin ?P ((childRel X L)\<^sup>* `` {t}) s s'"
        unfolding s' by (rule pushedWithin_eq_tiles) (simp_all add: restoreAncestor_tiles t1)
      with fin[OF a2] s' show ?thesis by simp
    qed
  qed
qed

lemma assembleLoop_pushed:
  assumes qt: "quadtree X L tops"
  shows "assembleLoop X L n ts s = Some (c, s')
    \<Longrightarrow> set (definedTiles ts) \<subseteq> reachable X L tops
    \<Longrightarrow> distinct (definedTiles ts)
    \<Longrightarrow> (\<forall>a \<in> set (definedTiles ts). \<forall>b \<in> set (definedTiles ts).
          levelNumber (tileMatrix a) = levelNumber (tileMatrix b))
    \<Longrightarrow> pushedWithin (tileMeetsRenderingCriteria X L)
          ((childRel X L)\<^sup>* `` set (definedTiles ts)) s s'"
proof (induction ts arbitrary: s)
  case Nil
  then show ?case by (simp add: pushedWithin_refl)
next
  case (Cons top rest)
  let ?P = "tileMeetsRenderingCriteria X L"
  show ?case
  proof (cases top)
    case None
    with Cons.prems show ?thesis by (simp add: pushedWithin_refl)
  next
    case (Some t)
    have dt: "definedTiles (top # rest) = t # definedTiles rest"
      using Some by simp
    have rest_reach: "set (definedTiles rest) \<subseteq> reachable X L tops"
      and t_reach: "t \<in> reachable X L tops"
      using Cons.prems(2) unfolding dt by simp_all
    have rest_dist: "distinct (definedTiles rest)"
      and t_notin: "t \<notin> set (definedTiles rest)"
      using Cons.prems(3) unfolding dt by simp_all
    have in_rest: "a \<in> set (definedTiles (top # rest))" if "a \<in> set (definedTiles rest)" for a
      using that unfolding dt by simp
    have in_t: "t \<in> set (definedTiles (top # rest))"
      unfolding dt by simp
    have rest_lvl: "\<forall>a \<in> set (definedTiles rest). \<forall>b \<in> set (definedTiles rest).
          levelNumber (tileMatrix a) = levelNumber (tileMatrix b)"
      using Cons.prems(4) in_rest by blast
    have t_lvl: "\<forall>b \<in> set (definedTiles rest). levelNumber (tileMatrix t) = levelNumber (tileMatrix b)"
      using Cons.prems(4) in_rest in_t by blast
    have un: "(childRel X L)\<^sup>* `` {t} \<union> (childRel X L)\<^sup>* `` set (definedTiles rest)
        = (childRel X L)\<^sup>* `` set (definedTiles (top # rest))"
      unfolding dt by (simp add: Image_Un[symmetric])
    have sub: "(childRel X L)\<^sup>* `` set (definedTiles rest)
        \<subseteq> (childRel X L)\<^sup>* `` set (definedTiles (top # rest))"
      and sub1: "(childRel X L)\<^sup>* `` {t} \<subseteq> (childRel X L)\<^sup>* `` set (definedTiles (top # rest))"
      unfolding un[symmetric] by simp_all
    have disj: "(childRel X L)\<^sup>* `` {t} \<inter> (childRel X L)\<^sup>* `` set (definedTiles rest) = {}"
    proof (rule ccontr)
      assume "(childRel X L)\<^sup>* `` {t} \<inter> (childRel X L)\<^sup>* `` set (definedTiles rest) \<noteq> {}"
      then obtain x b where x: "(t, x) \<in> (childRel X L)\<^sup>*" and b: "b \<in> set (definedTiles rest)"
        and bx: "(b, x) \<in> (childRel X L)\<^sup>*"
        by auto
      from b rest_reach have "b \<in> reachable X L tops" by auto
      moreover from b t_lvl have "levelNumber (tileMatrix t) = levelNumber (tileMatrix b)" by blast
      moreover from b t_notin have "t \<noteq> b" by auto
      ultimately have "(b, x) \<notin> (childRel X L)\<^sup>*"
        using subtrees_disjoint[OF qt t_reach _ _ _ x] by blast
      with bx show False by simp
    qed
    define s1 where "s1 = s\<lparr>currentAncestorTile := None\<rparr>"
    have inv1: "ancestorSubdivided ?P s1"
      by (simp add: s1_def ancestorSubdivided_def)
    have t1: "currentTiles s1 = currentTiles s"
      by (simp add: s1_def)
    show ?thesis
    proof (cases "isTileVisible X t")
      case False
      with Cons.prems(1) Some have "assembleLoop X L n rest s1 = Some (c, s')"
        by (simp add: s1_def Let_def)
      from Cons.IH[OF this rest_reach rest_dist rest_lvl]
      have "pushedWithin ?P ((childRel X L)\<^sup>* `` set (definedTiles rest)) s s'"
        by (rule pushedWithin_eq_tiles) (simp_all add: t1)
      then show ?thesis by (rule pushedWithin_mono[OF _ sub])
    next
      case True
      show ?thesis
      proof (cases "addTileOrDescendants X L n t s1")
        case None
        with Cons.prems(1) Some True show ?thesis by (simp add: s1_def Let_def)
      next
        case (Some r)
        obtain c1 s2 where r: "r = (c1, s2)" by (cases r)
        from addTileOrDescendants_pushed[OF qt Some[unfolded r] t_reach inv1]
        have "pushedWithin ?P ((childRel X L)\<^sup>* `` {t}) s1 s2"
          by simp
        then have p1: "pushedWithin ?P ((childRel X L)\<^sup>* `` {t}) s s2"
          by (rule pushedWithin_eq_tiles) (simp_all add: t1)
        show ?thesis
        proof (cases c1)
          case Thrown
          with Cons.prems(1) \<open>top = Some t\<close> True Some r have "s' = s2"
            by (simp add: s1_def Let_def)
          with p1 show ?thesis using pushedWithin_mono[OF _ sub1] by blast
        next
          case Returned
          with Cons.prems(1) \<open>top = Some t\<close> True Some r
          have "assembleLoop X L n rest s2 = Some (c, s')"
            by (simp add: s1_def Let_def)
          from Cons.IH[OF this rest_reach rest_dist rest_lvl]
          have p2: "pushedWithin ?P ((childRel X L)\<^sup>* `` set (definedTiles rest)) s2 s'" .
          from pushedWithin_trans[OF p1 p2 disj] show ?thesis
            unfolding un .
        qed
      qed
    qed
  qed
qed

lemma assembleTiles_accepted_distinct:
  assumes qt: "quadtree X L (frameTopTiles X L s)"
    and res: "assembleTiles X L n s = Some (c, s')"
  shows "distinct (filter (tileMeetsRenderingCriteria X L) (currentTiles s'))"
proof -
  let ?P = "tileMeetsRenderingCriteria X L"
  let ?tops = "frameTopTiles X L s"
  define s1 where "s1 = s\<lparr>currentTiles := []\<rparr>"
  have top1: "topLevelTiles s1 = topLevelTiles s"
    by (simp add: s1_def)
  have reach: "set (definedTiles ?tops) \<subseteq> reachable X L ?tops"
    by (auto intro: reachable_top)
  from qt have dist: "distinct (definedTiles ?tops)"
    and lvl: "\<forall>a \<in> set (definedTiles ?tops). \<forall>b \<in> set (definedTiles ?tops).
          levelNumber (tileMatrix a) = levelNumber (tileMatrix b)"
    unfolding quadtree_def by blast+
  show ?thesis
  proof (cases "topLevelTiles s = None \<or> topLevelTiles s = Some []")
    case True
    show ?thesis
    proof (cases "createTopLevelTiles X L")
      case (Inl e)
      with True res have "s' = s1\<lparr>topLevelTiles := Some []\<rparr>"
        by (auto simp: assembleTiles_def Let_def s1_def)
      then show ?thesis by (simp add: s1_def)
    next
      case (Inr tiles)
      with True have tops: "?tops = tiles"
        by (simp add: frameTopTiles_def)
      from True Inr res
      have "assembleLoop X L n ?tops (s1\<lparr>topLevelTiles := Some tiles\<rparr>) = Some (c, s')"
        unfolding tops by (auto simp: assembleTiles_def Let_def s1_def)
      from assembleLoop_pushed[OF qt this reach dist lvl]
      show ?thesis by (auto simp: pushedWithin_def s1_def)
    qed
  next
    case False
    then have tops: "?tops = the (topLevelTiles s)"
      unfolding frameTopTiles_def by (simp only: if_False)
    from False have "\<not> (topLevelTiles s1 = None \<or> topLevelTiles s1 = Some [])"
      unfolding top1 .
    with res have "assembleLoop X L n ?tops s1 = Some (c, s')"
      unfolding tops assembleTiles_def Let_def s1_def[symmetric] top1[symmetric]
      by (simp only: if_False)
    from assembleLoop_pushed[OF qt this reach dist lvl]
    show ?thesis by (auto simp: pushedWithin_def s1_def)
  qed
qed

lemma addSubTiles_returns:
  assumes "\<And>ch s. ch \<in> set (definedTiles cs) \<Longrightarrow> addTileOrDescendants X L n ch s \<noteq> None"
  shows "addSubTiles X L n cs s \<noteq> None"
  using assms
proof (induction cs arbitrary: s)
  case Nil
  then show ?case by simp
next
  case (Cons child rest)
  show ?case
  proof (cases child)
    case None
    then show ?thesis by simp
  next
    case (Some ch)
    have rest: "addSubTiles X L n rest u \<noteq> None" for u
      using Cons.IH Cons.prems Some by simp
    have "addTileOrDescendants X L n ch s \<noteq> None"
      using Cons.prems Some by simp
    then obtain c1 s1 where r: "addTileOrDescendants X L n ch s = Some (c1, s1)"
      by (cases "addTileOrDescendants X L n ch s") auto
    show ?thesis
      using Some r rest[of s] rest[of s1]
      by (cases "layerSector L"; cases c1) auto
  qed
qed

lemma addTileOrDescendants_returns:
  assumes qt: "quadtree X L tops"
  shows "t \<in> reachable X L tops
    \<Longrightarrow> levelNumber (tileMatrix t) < int (length (tms_tileMatrix (tileMatrixSet L)))
    \<Longrightarrow> int (length (tms_tileMatrix (tileMatrixSet L))) - levelNumber (tileMatrix t) \<le> int n
    \<Longrightarrow> addTileOrDescendants X L n t s \<noteq> None"
proof (induction n arbitrary: t s)
  case 0
  then show ?case by simp
next
  case (Suc n)
  let ?len = "int (length (tms_tileMatrix (tileMatrixSet L)))"
  show ?case
  proof (cases "tileMeetsRenderingCriteria X L t")
    case True
    then show ?thesis by simp
  next
    case False
    then have notlast: "levelNumber (tileMatrix t) \<noteq> ?len - 1"
      by (auto simp: tileMeetsRenderingCriteria_def Let_def)
    define nxt where
      "nxt = arrayGet (tms_tileMatrix (tileMatrixSet L)) (levelNumber (tileMatrix t) + 1)"
    show ?thesis
    proof (cases "subdivideToCache X nxt t")
      case None
      with False show ?thesis by (simp add: Let_def nxt_def)
    next
      case (Some cs)
      have ch: "addTileOrDescendants X L n ch u \<noteq> None" if "ch \<in> set (definedTiles cs)" for ch u
      proof -
        from that Some have rel: "(t, ch) \<in> childRel X L"
          by (simp add: childRel_def subTilesOf_def nxt_def)
        with Suc.prems(1) have r: "ch \<in> reachable X L tops"
          by (rule reachable_child)
        from qt Suc.prems(1) rel
        have l: "levelNumber (tileMatrix ch) = levelNumber (tileMatrix t) + 1"
          by (auto simp: quadtree_def)
        show ?thesis
          using Suc.IH[OF r] l notlast Suc.prems(2,3) by simp
      qed
      define b where "b = (isTileTextureInMemory s t \<or> levelNumber (tileMatrix t) = 0)"
      define anc where "anc = (if b then currentAncestorTile s else None)"
      define s1 where "s1 = (if b then s\<lparr>currentAncestorTile := Some t\<rparr> else s)"
      have unf: "addTileOrDescendants X L (Suc n) t s =
          (case subdivideToCache X nxt t of
             None \<Rightarrow> Some (Thrown, restoreAncestor anc s1)
           | Some subTiles \<Rightarrow>
               (case addSubTiles X L n subTiles s1 of
                  None \<Rightarrow> None
                | Some (c, s2) \<Rightarrow> Some (c, restoreAncestor anc s2)))"
        unfolding b_def anc_def s1_def nxt_def
        by (simp only: addTileOrDescendants.simps False if_False Let_def)
      from addSubTiles_returns[of cs X L n s1, OF ch]
      obtain c2 s2 where "addSubTiles X L n cs s1 = Some (c2, s2)"
        by (cases "addSubTiles X L n cs s1") auto
      with Some show ?thesis
        unfolding unf by simp
    qed
  qed
qed

lemma assembleLoop_returns:
  assumes "\<And>t s. t \<in> set (definedTiles ts) \<Longrightarrow> addTileOrDescendants X L n t s \<noteq> None"
  shows "assembleLoop X L n ts s \<noteq> None"
  using assms
proof (induction ts arbitrary: s)
  case Nil
  then show ?case by simp
next
  case (Cons top rest)
  show ?case
  proof (cases top)
    case None
    then show ?thesis by simp
  next
    case (Some t)
    have rest: "assembleLoop X L n rest u \<noteq> None" for u
      using Cons.IH Cons.prems Some by simp
    have "addTileOrDescendants X L n t (s\<lparr>currentAncestorTile := None\<rparr>) \<noteq> None"
      using Cons.prems Some by simp
    then obtain c1 s1 where
      r: "addTileOrDescendants X L n t (s\<lparr>currentAncestorTile := None\<rparr>) = Some (c1, s1)"
      by (cases "addTileOrDescendants X L n t (s\<lparr>currentAncestorTile := None\<rparr>)") auto
    show ?thesis
      using Some r rest[of s1] rest[of "s\<lparr>currentAncestorTile := None\<rparr>"]
      by (cases c1) (auto simp: Let_def)
  qed
qed

lemma assembleTiles_returns:
  assumes qt: "quadtree X L (frameTopTiles X L s)"
    and lv: "\<forall>t \<in> set (definedTiles (frameTopTiles X L s)).
               0 \<le> levelNumber (tileMatrix t)
               \<and> levelNumber (tileMatrix t) < int (length (tms_tileMatrix (tileMatrixSet L)))"
    and n: "length (tms_tileMatrix (tileMatrixSet L)) \<le> n"
  shows "assembleTiles X L n s \<noteq> None"
proof -
  let ?tops = "frameTopTiles X L s"
  have each: "addTileOrDescendants X L n t u \<noteq> None" if "t \<in> set (definedTiles ?tops)" for t u
  proof -
    from that have r: "t \<in> reachable X L ?tops" by (rule reachable_top)
    from lv that have "0 \<le> levelNumber (tileMatrix t)"
      and l: "levelNumber (tileMatrix t) < int (length (tms_tileMatrix (tileMatrixSet L)))"
      by blast+
    with n have "int (length (tms_tileMatrix (tileMatrixSet L))) - levelNumber (tileMatrix t) \<le> int n"
      by simp
    from addTileOrDescendants_returns[OF qt r l this] show ?thesis .
  qed
  have loop: "assembleLoop X L n ?tops u \<noteq> None" for u
    using assembleLoop_returns[of ?tops X L n, OF each] by simp
  show ?thesis
  proof (cases "topLevelTiles s = None \<or> topLevelTiles s = Some []")
    case True
    show ?thesis
    proof (cases "createTopLevelTiles X L")
      case (Inl e)
      with True show ?thesis by (auto simp: assembleTiles_def Let_def)
    next
      case (Inr tiles)
      with True have "?tops = tiles" by (simp add: frameTopTiles_def)
      with loop[of "s\<lparr>currentTiles := [], topLevelTiles := Some tiles\<rparr>"] True Inr
      show ?thesis by (auto simp: assembleTiles_def Let_def)
    qed
  next
    case False
    then have "?tops = the (topLevelTiles s)"
      unfolding frameTopTiles_def by (simp only: if_False)
    with loop[of "s\<lparr>currentTiles := []\<rparr>"] False
    show ?thesis by (auto simp: assembleTiles_def Let_def)
  qed
qed

lemma assembleTiles_single_top:
  assumes "topLevelTiles s = Some [Some tile]" and "isTileVisible X tile"
    and "tileMeetsRenderingCriteria X L tile" and "containsResource s (imagePath tile)"
  shows "traversalResult (assembleTiles X L (Suc n) s) = Some (Returned, [tile], None)"
proof -
  define s1 where "s1 = s\<lparr>currentTiles := [], currentAncestorTile := None\<rparr>"
  have c: "containsResource s1 (imagePath tile)"
    using assms(4) by (simp add: s1_def containsResource_def)
  have t: "currentTiles (addTile X L tile s1) = [tile]"
    using c by (simp add: addTile_tiles) (simp add: s1_def)
  have an: "currentAncestorTile (addTile X L tile s1) = None"
    by (simp add: addTile_ancestor s1_def)
  have "assembleTiles X L (Suc n) s = Some (Returned, addTile X L tile s1)"
    using assms(1-3) by (simp add: assembleTiles_def Let_def s1_def)
  then show ?thesis
    using t an by (simp add: traversalResult_def)
qed

lemma exTable_subTiles:
  "subTilesOf exTable L t = (if t = exTopTile then [Some exChildA, Some exChildB] else [])"
  by (simp add: subTilesOf_def exTable_def)

lemma exTable_childRel:
  "childRel exTable L = {(exTopTile, exChildA), (exTopTile, exChildB)}"
  by (auto simp: childRel_def exTable_subTiles split: if_splits)

lemma exChild_facts:
  "exChildA \<noteq> exChildB"
  "levelNumber (tileMatrix exChildA) = 1" "levelNumber (tileMatrix exChildB) = 1"
  "levelNumber (tileMatrix exTopTile) = 0"
  by (simp_all add: exChildA_def exChildB_def exTopTile_def makeTile_def exLevel_def)

lemma exTable_quadtree:
  "quadtree exTable (exLayer exTwoLevels) (frameTopTiles exTable (exLayer exTwoLevels) exTwoCached)"
proof -
  have tops: "frameTopTiles exTable (exLayer exTwoLevels) exTwoCached = [Some exTopTile]"
    by (simp add: frameTopTiles_def exTwoCached_def)
  show ?thesis
    unfolding quadtree_def tops
    by (auto simp: exTable_subTiles exTable_childRel exChild_facts)
qed

lemma exTable_run:
  "traversalResult (assembleTiles exTable (exLayer exTwoLevels) 2 exTwoCached)
     = Some (Returned, [exChildA, exTopTile], Some exTopTile)"
  by (simp add: run_defs ex_defs exTable_def exTwoCached_def exChildA_def exChildB_def
      crs_ex upt_ex num_ex numeral_2_eq_2)

text \<open>
  Claim C4, as the code has it. When the tiles of the frame form a quadtree of distinct
  tiles (\<open>quadtree\<close>), no tile that the traversal accepted, that is no tile that
  meets the rendering criteria, is in the render list more than once; and the traversal
  ends when, besides, the top level tiles are of levels of the tile matrix set that are
  not negative and the depth bound is at least the number of levels. Every accepted tile
  appends at most one entry: the tile itself when its texture is in the cache, and
  otherwise the ancestor-of-record when there is one and its texture is in the cache; so
  an ancestor, a tile that was subdivided, is listed once for every accepted descendant
  without a texture that has it as ancestor-of-record. When the only top level tile is in
  view, meets the rendering criteria and has its texture in the cache, the render list
  that \<^verbatim>\<open>assembleTiles\<close> builds is exactly that tile, once.
\<close>

theorem assembleTiles_render_list:
  "(quadtree X L (frameTopTiles X L s) \<and> assembleTiles X L n s = Some (c, s')
      \<longrightarrow> distinct (filter (tileMeetsRenderingCriteria X L) (currentTiles s')))
   \<and> (quadtree X L (frameTopTiles X L s)
        \<and> (\<forall>t \<in> set (definedTiles (frameTopTiles X L s)).
               0 \<le> levelNumber (tileMatrix t)
               \<and> levelNumber (tileMatrix t) < int (length (tms_tileMatrix (tileMatrixSet L))))
        \<and> length (tms_tileMatrix (tileMatrixSet L)) \<le> n
      \<longrightarrow> assembleTiles X L n s \<noteq> None)
   \<and> currentTiles (addTile X L tile s) =
       currentTiles s @
         (if containsResource s (imagePath tile) then [tile]
          else case currentAncestorTile s of
                 None \<Rightarrow> []
               | Some a \<Rightarrow> if containsResource s (imagePath a) then [a] else [])
   \<and> (topLevelTiles s = Some [Some tile] \<and> isTileVisible X tile
        \<and> tileMeetsRenderingCriteria X L tile \<and> containsResource s (imagePath tile)
      \<longrightarrow> traversalResult (assembleTiles X L (Suc m) s) = Some (Returned, [tile], None))"
  using assembleTiles_accepted_distinct[of X L s n c s'] assembleTiles_returns[of X L s n]
    addTile_tiles[of X L tile s] assembleTiles_single_top[of s tile X L m]
  by blast

text \<open>
  An instance for claim C4: the top tile is subdivided into two children, one with a
  texture and one without; and a frame in which the top tile itself is accepted.
\<close>

theorem assembleTiles_render_list_witness:
  "quadtree exTable (exLayer exTwoLevels) (frameTopTiles exTable (exLayer exTwoLevels) exTwoCached)
   \<and> definedTiles (frameTopTiles exTable (exLayer exTwoLevels) exTwoCached) = [exTopTile]
   \<and> 0 \<le> levelNumber (tileMatrix exTopTile)
   \<and> levelNumber (tileMatrix exTopTile) < int (length (tms_tileMatrix (tileMatrixSet (exLayer exTwoLevels))))
   \<and> length (tms_tileMatrix (tileMatrixSet (exLayer exTwoLevels))) \<le> 2
   \<and> assembleTiles exTable (exLayer exTwoLevels) 2 exTwoCached \<noteq> None
   \<and> traversalResult (assembleTiles exTable (exLayer exTwoLevels) 2 exTwoCached)
       = Some (Returned, [exChildA, exTopTile], Some exTopTile)
   \<and> distinct (filter (tileMeetsRenderingCriteria exTable (exLayer exTwoLevels)) [exChildA, exTopTile])
   \<and> topLevelTiles exTopReady = Some [Some exTopTile]
   \<and> isTileVisible exFar exTopTile
   \<and> tileMeetsRenderingCriteria exFar (exLayer exTwoLevels) exTopTile
   \<and> containsResource exTopReady (imagePath exTopTile)
   \<and> traversalResult (assembleTiles exFar (exLayer exTwoLevels) (Suc 0) exTopReady)
       = Some (Returned, [exTopTile], None)"
proof -
  let ?L = "exLayer exTwoLevels"
  have tops: "definedTiles (frameTopTiles exTable ?L exTwoCached) = [exTopTile]"
    by (simp add: frameTopTiles_def exTwoCached_def)
  have l0: "0 \<le> levelNumber (tileMatrix exTopTile)"
    and l1: "levelNumber (tileMatrix exTopTile) < int (length (tms_tileMatrix (tileMatrixSet ?L)))"
    and l2: "length (tms_tileMatrix (tileMatrixSet ?L)) \<le> 2"
    by (simp_all add: exChild_facts exLayer_def exTwoLevels_def exSet_def)
  have lv: "\<forall>t \<in> set (definedTiles (frameTopTiles exTable ?L exTwoCached)).
      0 \<le> levelNumber (tileMatrix t)
      \<and> levelNumber (tileMatrix t) < int (length (tms_tileMatrix (tileMatrixSet ?L)))"
    unfolding tops using l0 l1 by simp
  from exTable_run obtain c s' where
    r: "assembleTiles exTable ?L 2 exTwoCached = Some (c, s')"
    and t: "currentTiles s' = [exChildA, exTopTile]"
    by (auto simp: traversalResult_def)
  note th = assembleTiles_render_list[of exTable ?L exTwoCached 2 c s']
  from th exTable_quadtree r
  have "distinct (filter (tileMeetsRenderingCriteria exTable ?L) (currentTiles s'))"
    by blast
  then have d: "distinct (filter (tileMeetsRenderingCriteria exTable ?L) [exChildA, exTopTile])"
    unfolding t .
  from th exTable_quadtree lv l2 have ret: "assembleTiles exTable ?L 2 exTwoCached \<noteq> None"
    by blast
  have h1: "topLevelTiles exTopReady = Some [Some exTopTile]"
    by (simp add: exTopReady_def)
  have h2: "isTileVisible exFar exTopTile"
    by (simp add: isTileVisible_def exFar_def exX_def)
  have h3: "tileMeetsRenderingCriteria exFar ?L exTopTile"
    by (simp add: tileMeetsRenderingCriteria_def exFar_def Let_def)
  have h4: "containsResource exTopReady (imagePath exTopTile)"
    by (simp add: containsResource_def exTopReady_def exTopCached_def)
  from assembleTiles_render_list[of exFar ?L exTopReady 0 Returned exTopReady exTopTile 0] h1 h2 h3 h4
  have "traversalResult (assembleTiles exFar ?L (Suc 0) exTopReady) = Some (Returned, [exTopTile], None)"
    by blast
  with exTable_quadtree tops l0 l1 l2 ret exTable_run d h1 h2 h3 h4 show ?thesis
    by blast
qed

section \<open>Properties of the reprojection of Mercator images\<close>

lemma copyPixel_length: "length (copyPixel src w y sr x dest) = length dest"
  by (simp add: copyPixel_def Let_def)

lemma quad_update_nth:
  assumes "k < length d"
  shows "d[4 * p := a0, 4 * p + 1 := a1, 4 * p + 2 := a2, 4 * p + 3 := a3] ! k =
     (if k div 4 = p then [a0, a1, a2, a3] ! (k mod 4) else d ! k)"
proof -
  consider (a) "k = 4 * p" | (b) "k = 4 * p + 1" | (c) "k = 4 * p + 2" | (d) "k = 4 * p + 3"
    | (e) "k div 4 \<noteq> p"
    by arith
  then show ?thesis
  proof cases
    case a
    then have dm: "k div 4 = p" "k mod 4 = 0" by arith+
    have "d[4 * p := a0, 4 * p + 1 := a1, 4 * p + 2 := a2, 4 * p + 3 := a3] ! k = a0"
      using assms unfolding a by simp
    then show ?thesis by (simp add: dm)
  next
    case b
    then have dm: "k div 4 = p" "k mod 4 = 1" by arith+
    have "d[4 * p := a0, 4 * p + 1 := a1, 4 * p + 2 := a2, 4 * p + 3 := a3] ! k = a1"
      using assms unfolding b by simp
    then show ?thesis by (simp add: dm)
  next
    case c
    then have dm: "k div 4 = p" "k mod 4 = 2" by arith+
    have "d[4 * p := a0, 4 * p + 1 := a1, 4 * p + 2 := a2, 4 * p + 3 := a3] ! k = a2"
      using assms unfolding c by simp
    then show ?thesis by (simp add: dm)
  next
    case d
    then have dm: "k div 4 = p" "k mod 4 = 3" by arith+
    have "d[4 * p := a0, 4 * p + 1 := a1, 4 * p + 2 := a2, 4 * p + 3 := a3] ! k = a3"
      using assms unfolding d by simp
    then show ?thesis by (simp add: dm)
  next
    case e
    then have "k \<noteq> 4 * p" "k \<noteq> 4 * p + 1" "k \<noteq> 4 * p + 2" "k \<noteq> 4 * p + 3"
      by arith+
    with e show ?thesis by simp
  qed
qed

lemma copyPixel_nth:
  assumes "k < length dest"
  shows "copyPixel src w y sr x dest ! k =
     (if k div 4 = x + y * w
      then readByte src (map_option (\<lambda>r. 4 * (int x + r * int w) + int (k mod 4)) sr)
      else dest ! k)"
proof -
  let ?kSrc = "map_option (\<lambda>r. 4 * (int x + r * int w)) sr"
  have m: "k mod 4 = 0 \<or> k mod 4 = 1 \<or> k mod 4 = 2 \<or> k mod 4 = 3"
    by arith
  have "[readByte src ?kSrc, readByte src (map_option (\<lambda>k. k + 1) ?kSrc),
         readByte src (map_option (\<lambda>k. k + 2) ?kSrc),
         readByte src (map_option (\<lambda>k. k + 3) ?kSrc)] ! (k mod 4)
      = readByte src (map_option (\<lambda>r. 4 * (int x + r * int w) + int (k mod 4)) sr)"
    using m by (cases sr) auto
  then show ?thesis
    unfolding copyPixel_def Let_def
    using quad_update_nth[OF assms, of "x + y * w"
        "readByte src ?kSrc" "readByte src (map_option (\<lambda>k. k + 1) ?kSrc)"
        "readByte src (map_option (\<lambda>k. k + 2) ?kSrc)"
        "readByte src (map_option (\<lambda>k. k + 3) ?kSrc)"]
    by simp
qed

lemma row_length:
  "length (fold (copyPixel src w y sr) xs dest) = length dest"
  by (induction xs arbitrary: dest) (simp_all add: copyPixel_length)

lemma row_nth:
  assumes "k < length dest"
  shows "fold (copyPixel src w y sr) [0..<n] dest ! k =
     (if y * w \<le> k div 4 \<and> k div 4 < y * w + n
      then readByte src
             (map_option (\<lambda>r. 4 * (int (k div 4 - y * w) + r * int w) + int (k mod 4)) sr)
      else dest ! k)"
proof (induction n)
  case 0
  then show ?case by simp
next
  case (Suc n)
  have len: "k < length (fold (copyPixel src w y sr) [0..<n] dest)"
    using assms by (simp add: row_length)
  show ?case
  proof (cases "k div 4 = n + y * w")
    case True
    then show ?thesis
      using len by (simp add: copyPixel_nth)
  next
    case False
    then show ?thesis
      using len Suc by (auto simp: copyPixel_nth)
  qed
qed

lemma unprojectRow_length: "length (unprojectRow X sec img y dest) = length dest"
  by (simp add: unprojectRow_def row_length)

lemma rows_length:
  "length (fold (unprojectRow X sec img) ys dest) = length dest"
  by (induction ys arbitrary: dest) (simp_all add: unprojectRow_length)

lemma rows_nth:
  assumes "k < length dest"
  shows "fold (unprojectRow X sec img) [0..<m] dest ! k =
     (if k div 4 < m * width img
      then readByte (pixels img)
             (map_option
                (\<lambda>r. 4 * (int ((k div 4) mod width img) + r * int (width img)) + int (k mod 4))
                (sourceRow X sec (height img) ((k div 4) div width img)))
      else dest ! k)"
proof (induction m)
  case 0
  then show ?case by simp
next
  case (Suc m)
  let ?w = "width img"
  let ?d = "fold (unprojectRow X sec img) [0..<m] dest"
  have len: "k < length ?d"
    using assms by (simp add: rows_length)
  have step: "fold (unprojectRow X sec img) [0..<Suc m] dest ! k =
      (if m * ?w \<le> k div 4 \<and> k div 4 < m * ?w + ?w
       then readByte (pixels img)
              (map_option (\<lambda>r. 4 * (int (k div 4 - m * ?w) + r * int ?w) + int (k mod 4))
                 (sourceRow X sec (height img) m))
       else ?d ! k)"
    using len by (simp add: unprojectRow_def row_nth)
  show ?case
  proof (cases "m * ?w \<le> k div 4 \<and> k div 4 < m * ?w + ?w")
    case True
    then have w: "0 < ?w" by (cases "?w = 0") auto
    from True have q: "(k div 4) div ?w = m"
      by (metis add.commute div_nat_eqI mult.commute mult_Suc_right)
    from True q have r: "(k div 4) mod ?w = k div 4 - m * ?w"
      by (metis add_diff_cancel_left' mult.commute mult_div_mod_eq)
    from True show ?thesis
      unfolding step by (simp add: q r)
  next
    case False
    then show ?thesis
      unfolding step using Suc by auto
  qed
qed

lemma unprojectImage_nth:
  assumes y: "y < height img" and x: "x < width img" and c: "c < 4"
  shows "pixels (unprojectImage X sec img) ! (4 * (x + y * width img) + c)
     = readByte (pixels img)
         (map_option (\<lambda>r. 4 * (int x + r * int (width img)) + int c)
            (sourceRow X sec (height img) y))"
proof -
  let ?w = "width img" and ?h = "height img"
  let ?k = "4 * (x + y * ?w) + c"
  have "(4 * p + c) div 4 = p \<and> (4 * p + c) mod 4 = c" for p
    using c by simp
  then have kd: "?k div 4 = x + y * ?w" and km: "?k mod 4 = c"
    by blast+
  have px: "x + y * ?w < ?h * ?w"
  proof -
    have "x + y * ?w < ?w + y * ?w" using x by simp
    also have "\<dots> = Suc y * ?w" by simp
    also have "\<dots> \<le> ?h * ?w" using y by (intro mult_le_mono1) simp
    finally show ?thesis .
  qed
  then have klen: "?k < length (replicate (4 * ?w * ?h) (0::nat))"
    using c by (simp add: mult.commute)
  have q: "(x + y * ?w) div ?w = y" and r: "(x + y * ?w) mod ?w = x"
    using x by simp_all
  have "fold (unprojectRow X sec img) [0..<?h] (replicate (4 * ?w * ?h) 0) ! ?k
      = readByte (pixels img)
          (map_option (\<lambda>r. 4 * (int x + r * int ?w) + int c) (sourceRow X sec ?h y))"
    using rows_nth[OF klen, of X sec img ?h] px unfolding kd km q r
    by (simp only: if_True)
  then show ?thesis
    by (simp only: unprojectImage_def image_rec.simps)
qed

lemma readByte_in_image:
  assumes wf: "length d = 4 * w * h" and x: "x < w" and c: "c < 4"
    and r: "0 \<le> r" "r < int h"
  shows "readByte d (Some (4 * (int x + r * int w) + int c)) = d ! (4 * (x + nat r * w) + c)"
proof -
  define n where "n = nat r"
  have sr: "r = int n" and nh: "n < h"
    using r by (simp_all add: n_def)
  have "x + n * w < w + n * w" using x by simp
  also have "\<dots> = Suc n * w" by simp
  also have "\<dots> \<le> h * w" using nh by (intro mult_le_mono1) simp
  finally have "4 * (x + n * w) + c < 4 * w * h"
    using c by (simp add: mult.commute)
  moreover have "4 * (int x + int n * int w) + int c = int (4 * (x + n * w) + c)"
    by simp
  ultimately have "readByte d (Some (4 * (int x + int n * int w) + int c))
      = d ! (4 * (x + n * w) + c)"
    unfolding readByte_def using wf by (simp del: of_nat_add of_nat_mult)
  then show ?thesis
    unfolding sr by simp
qed

lemma readByte_outside_image:
  assumes wf: "length d = 4 * w * h" and x: "x < w" and c: "c < 4"
    and r: "r < 0 \<or> int h \<le> r"
  shows "readByte d (Some (4 * (int x + r * int w) + int c)) = 0"
proof -
  have w: "0 < int w" using x by simp
  from r show ?thesis
  proof
    assume "r < 0"
    then have "r * int w \<le> - 1 * int w"
      using w by (intro mult_right_mono) simp_all
    then have "int x + r * int w < 0"
      using x by simp
    then have "4 * (int x + r * int w) + int c < 0"
      using c by simp
    then show ?thesis
      by (simp add: readByte_def)
  next
    assume "int h \<le> r"
    then have "int h * int w \<le> r * int w"
      using w by (intro mult_right_mono) simp_all
    then have "int (length d) \<le> 4 * (int x + r * int w) + int c"
      using wf by (simp add: mult.commute mult.left_commute)
    then show ?thesis
      by (simp add: readByte_def)
  qed
qed

text \<open>
  What \<^verbatim>\<open>createTexture3857\<close> does whatever row its arithmetic selects. The image it makes
  has the width and the height of the source image, and all the pixels of a destination
  row y are read in the one source row selected for y, each in its own column: when that
  row is within the image, the four channels of destination pixel (x, y) are the channels
  of source pixel (x, source row); when it is NaN or outside the image they are 0. The
  row itself is the floor of a product of IEEE doubles, which this theory does not
  model; it is the parameter \<open>sourceRow\<close>, and nothing is assumed of it.
\<close>

lemma createTexture3857_copies_columns:
  assumes "length (pixels img) = 4 * width img * height img"
    and "y < height img" and "x < width img" and "c < 4"
  shows "width (texImage (createTexture3857 X tile img)) = width img
     \<and> height (texImage (createTexture3857 X tile img)) = height img
     \<and> pixels (texImage (createTexture3857 X tile img)) ! (4 * (x + y * width img) + c)
         = (case sourceRow X (sector tile) (height img) y of
              None \<Rightarrow> 0
            | Some r \<Rightarrow>
                if 0 \<le> r \<and> r < int (height img)
                then pixels img ! (4 * (x + nat r * width img) + c) else 0)"
proof -
  have dims: "width (texImage (createTexture3857 X tile img)) = width img"
    "height (texImage (createTexture3857 X tile img)) = height img"
    by (simp_all add: createTexture3857_def Texture_def unprojectImage_def)
  have px: "pixels (texImage (createTexture3857 X tile img)) ! (4 * (x + y * width img) + c)
      = readByte (pixels img)
          (map_option (\<lambda>r. 4 * (int x + r * int (width img)) + int c)
             (sourceRow X (sector tile) (height img) y))"
    using unprojectImage_nth[OF assms(2,3,4), of X "sector tile"]
    by (simp add: createTexture3857_def Texture_def)
  have "readByte (pixels img)
          (map_option (\<lambda>r. 4 * (int x + r * int (width img)) + int c)
             (sourceRow X (sector tile) (height img) y))
      = (case sourceRow X (sector tile) (height img) y of
              None \<Rightarrow> 0
            | Some r \<Rightarrow>
                if 0 \<le> r \<and> r < int (height img)
                then pixels img ! (4 * (x + nat r * width img) + c) else 0)"
  proof (cases "sourceRow X (sector tile) (height img) y")
    case None
    then show ?thesis by (simp add: readByte_def)
  next
    case (Some r)
    show ?thesis
    proof (cases "0 \<le> r \<and> r < int (height img)")
      case True
      then show ?thesis
        using readByte_in_image[OF assms(1,3,4), of r] Some by simp
    next
      case False
      then have out: "r < 0 \<or> int (height img) \<le> r" by arith
      show ?thesis
        unfolding Some option.map option.case if_not_P[OF False]
        by (rule readByte_outside_image[OF assms(1,3,4) out])
    qed
  qed
  with dims px show ?thesis by simp
qed

text \<open>
  An example: in an image of one column and two rows, with the first source row selected
  for the second destination row, the blue channel of the second destination row is the
  blue channel of the first source row.
\<close>

lemma createTexture3857_copies_columns_example:
  "sourceRow exX (sector exMercatorTile) (height exImage) 1 = Some 0
   \<and> pixels (texImage (createTexture3857 exX exMercatorTile exImage)) ! (4 * (0 + 1 * width exImage) + 2)
       = 30"
proof -
  have sr: "sourceRow exX (sector exMercatorTile) (height exImage) 1 = Some 0"
    by (simp add: exX_def)
  have "length (pixels exImage) = 4 * width exImage * height exImage"
    and "(1::nat) < height exImage" and "(0::nat) < width exImage" and "(2::nat) < 4"
    by (simp_all add: exImage_def)
  from createTexture3857_copies_columns[OF this, of exX exMercatorTile]
  have "pixels (texImage (createTexture3857 exX exMercatorTile exImage)) ! (4 * (0 + 1 * width exImage) + 2)
      = (case sourceRow exX (sector exMercatorTile) (height exImage) 1 of
              None \<Rightarrow> 0
            | Some r \<Rightarrow>
                if 0 \<le> r \<and> r < int (height exImage)
                then pixels exImage ! (4 * (0 + nat r * width exImage) + 2) else 0)"
    by blast
  also have "\<dots> = 30"
    unfolding sr by (simp add: exImage_def)
  finally show ?thesis
    using sr by blast
qed

end
